theory Spec2Isabelle
  imports Complex_Main "HOL-Library.Char_ord" "HOL-Library.List_Lexorder"
begin

section \<open>JavaScript values and number arithmetic\<close>

text \<open>
  The valuation engine (\<^verbatim>\<open>src/ValuationCalculator.js\<close>) computes with JavaScript numbers
  read from a JSON company record. A field of such a record is a finite number, \<^verbatim>\<open>null\<close>
  or absent (\<^verbatim>\<open>undefined\<close>), and arithmetic can produce \<^verbatim>\<open>Infinity\<close>,
  \<^verbatim>\<open>-Infinity\<close> and \<^verbatim>\<open>NaN\<close>. The model keeps all of these apart. A finite
  double is modelled by the real number it denotes: rounding, overflow to infinity and the
  sign of zero are not modelled, everything else follows the language (division by zero,
  \<^verbatim>\<open>NaN\<close> propagation, comparisons with \<^verbatim>\<open>NaN\<close> being false, the coercion of
  \<^verbatim>\<open>null\<close> to 0 and of \<^verbatim>\<open>undefined\<close> to \<^verbatim>\<open>NaN\<close>).
\<close>

datatype jsval = Fin real | PosInf | NegInf | NaN | Null | Undefined

text \<open>ToNumber on the values above.\<close>

fun to_number :: "jsval \<Rightarrow> jsval" where
  "to_number Null = Fin 0"
| "to_number Undefined = NaN"
| "to_number v = v"

text \<open>ToBoolean: \<^verbatim>\<open>if (x)\<close>, \<^verbatim>\<open>x || y\<close>.\<close>

fun truthy :: "jsval \<Rightarrow> bool" where
  "truthy (Fin x) = (x \<noteq> 0)"
| "truthy PosInf = True"
| "truthy NegInf = True"
| "truthy _ = False"

fun num_add :: "jsval \<Rightarrow> jsval \<Rightarrow> jsval" where
  "num_add (Fin a) (Fin b) = Fin (a + b)"
| "num_add PosInf (Fin b) = PosInf"
| "num_add (Fin a) PosInf = PosInf"
| "num_add PosInf PosInf = PosInf"
| "num_add NegInf (Fin b) = NegInf"
| "num_add (Fin a) NegInf = NegInf"
| "num_add NegInf NegInf = NegInf"
| "num_add _ _ = NaN"

fun num_neg :: "jsval \<Rightarrow> jsval" where
  "num_neg (Fin a) = Fin (- a)"
| "num_neg PosInf = NegInf"
| "num_neg NegInf = PosInf"
| "num_neg _ = NaN"

fun num_mul :: "jsval \<Rightarrow> jsval \<Rightarrow> jsval" where
  "num_mul (Fin a) (Fin b) = Fin (a * b)"
| "num_mul PosInf (Fin b) = (if b = 0 then NaN else if 0 < b then PosInf else NegInf)"
| "num_mul NegInf (Fin b) = (if b = 0 then NaN else if 0 < b then NegInf else PosInf)"
| "num_mul (Fin a) PosInf = (if a = 0 then NaN else if 0 < a then PosInf else NegInf)"
| "num_mul (Fin a) NegInf = (if a = 0 then NaN else if 0 < a then NegInf else PosInf)"
| "num_mul PosInf PosInf = PosInf"
| "num_mul NegInf NegInf = PosInf"
| "num_mul PosInf NegInf = NegInf"
| "num_mul NegInf PosInf = NegInf"
| "num_mul _ _ = NaN"

fun num_div :: "jsval \<Rightarrow> jsval \<Rightarrow> jsval" where
  "num_div (Fin a) (Fin b) =
     (if b = 0 then (if a = 0 then NaN else if 0 < a then PosInf else NegInf)
      else Fin (a / b))"
| "num_div (Fin a) PosInf = Fin 0"
| "num_div (Fin a) NegInf = Fin 0"
| "num_div PosInf (Fin b) = (if 0 \<le> b then PosInf else NegInf)"
| "num_div NegInf (Fin b) = (if 0 \<le> b then NegInf else PosInf)"
| "num_div _ _ = NaN"

fun num_less :: "jsval \<Rightarrow> jsval \<Rightarrow> bool" where
  "num_less (Fin a) (Fin b) = (a < b)"
| "num_less (Fin a) PosInf = True"
| "num_less NegInf (Fin b) = True"
| "num_less NegInf PosInf = True"
| "num_less _ _ = False"

fun num_less_eq :: "jsval \<Rightarrow> jsval \<Rightarrow> bool" where
  "num_less_eq (Fin a) (Fin b) = (a \<le> b)"
| "num_less_eq (Fin a) PosInf = True"
| "num_less_eq NegInf (Fin b) = True"
| "num_less_eq NegInf PosInf = True"
| "num_less_eq PosInf PosInf = True"
| "num_less_eq NegInf NegInf = True"
| "num_less_eq _ _ = False"

fun num_abs :: "jsval \<Rightarrow> jsval" where
  "num_abs (Fin a) = Fin \<bar>a\<bar>"
| "num_abs PosInf = PosInf"
| "num_abs NegInf = PosInf"
| "num_abs _ = NaN"

text \<open>
  The operators \<^verbatim>\<open>+ - * /\<close>, \<^verbatim>\<open>< <= > >=\<close> and \<^verbatim>\<open>Math.abs\<close> of the source:
  both operands are coerced with ToNumber first. (\<open>a > b\<close> is \<open>b < a\<close>, as in the
  language.)
\<close>

instantiation jsval :: "{plus, minus, uminus, times, inverse, abs, ord}"
begin

definition plus_jsval :: "jsval \<Rightarrow> jsval \<Rightarrow> jsval" where
  "plus_jsval a b = num_add (to_number a) (to_number b)"

definition uminus_jsval :: "jsval \<Rightarrow> jsval" where
  "uminus_jsval a = num_neg (to_number a)"

definition minus_jsval :: "jsval \<Rightarrow> jsval \<Rightarrow> jsval" where
  "minus_jsval a b = num_add (to_number a) (num_neg (to_number b))"

definition times_jsval :: "jsval \<Rightarrow> jsval \<Rightarrow> jsval" where
  "times_jsval a b = num_mul (to_number a) (to_number b)"

definition divide_jsval :: "jsval \<Rightarrow> jsval \<Rightarrow> jsval" where
  "divide_jsval a b = num_div (to_number a) (to_number b)"

definition inverse_jsval :: "jsval \<Rightarrow> jsval" where
  "inverse_jsval a = num_div (Fin 1) (to_number a)"

definition abs_jsval :: "jsval \<Rightarrow> jsval" where
  "abs_jsval a = num_abs (to_number a)"

definition less_jsval :: "jsval \<Rightarrow> jsval \<Rightarrow> bool" where
  "less_jsval a b = num_less (to_number a) (to_number b)"

definition less_eq_jsval :: "jsval \<Rightarrow> jsval \<Rightarrow> bool" where
  "less_eq_jsval a b = num_less_eq (to_number a) (to_number b)"

instance ..

end

text \<open>\<^verbatim>\<open>Math.sqrt\<close>.\<close>

fun Math_sqrt :: "jsval \<Rightarrow> jsval" where
  "Math_sqrt (Fin a) = (if a < 0 then NaN else Fin (sqrt a))"
| "Math_sqrt PosInf = PosInf"
| "Math_sqrt Null = Fin 0"
| "Math_sqrt _ = NaN"

text \<open>
  \<^verbatim>\<open>Math.pow\<close>, by the cases of the language definition (Number::exponentiate): a
  \<^verbatim>\<open>NaN\<close> exponent gives \<^verbatim>\<open>NaN\<close>, a zero exponent gives 1 for every base, a
  negative finite base with a fractional exponent gives \<^verbatim>\<open>NaN\<close>.
\<close>

definition is_integer :: "real \<Rightarrow> bool" where
  "is_integer e = (e = of_int \<lfloor>e\<rfloor>)"

definition is_odd_integer :: "real \<Rightarrow> bool" where
  "is_odd_integer e = (is_integer e \<and> odd \<lfloor>e\<rfloor>)"

fun num_pow :: "jsval \<Rightarrow> jsval \<Rightarrow> jsval" where
  "num_pow b (Fin e) =
     (if e = 0 then Fin 1
      else case b of
        Fin x \<Rightarrow>
          (if x = 0 then (if 0 < e then Fin 0 else PosInf)
           else if 0 < x then Fin (x powr e)
           else if is_integer e
             then Fin ((if is_odd_integer e then - 1 else 1) * (\<bar>x\<bar> powr e))
           else NaN)
      | PosInf \<Rightarrow> (if 0 < e then PosInf else Fin 0)
      | NegInf \<Rightarrow> (if 0 < e then (if is_odd_integer e then NegInf else PosInf) else Fin 0)
      | _ \<Rightarrow> NaN)"
| "num_pow b PosInf =
     (case b of
        Fin x \<Rightarrow> (if 1 < \<bar>x\<bar> then PosInf else if \<bar>x\<bar> = 1 then NaN else Fin 0)
      | PosInf \<Rightarrow> PosInf
      | NegInf \<Rightarrow> PosInf
      | _ \<Rightarrow> NaN)"
| "num_pow b NegInf =
     (case b of
        Fin x \<Rightarrow> (if 1 < \<bar>x\<bar> then Fin 0 else if \<bar>x\<bar> = 1 then NaN else PosInf)
      | PosInf \<Rightarrow> Fin 0
      | NegInf \<Rightarrow> Fin 0
      | _ \<Rightarrow> NaN)"
| "num_pow b _ = NaN"

definition Math_pow :: "jsval \<Rightarrow> jsval \<Rightarrow> jsval" where
  "Math_pow b e = num_pow (to_number b) (to_number e)"

text \<open>\<^verbatim>\<open>Math.min\<close> of any number of arguments: \<^verbatim>\<open>NaN\<close> if one of them is.\<close>

definition num_min :: "jsval \<Rightarrow> jsval \<Rightarrow> jsval" where
  "num_min a b = (if a = NaN \<or> b = NaN then NaN else if b < a then b else a)"

definition Math_min :: "jsval list \<Rightarrow> jsval" where
  "Math_min vs = foldl num_min PosInf (map to_number vs)"

text \<open>
  \<^verbatim>\<open>JSON.parse(JSON.stringify(v))\<close> on a number field: \<^verbatim>\<open>NaN\<close> and the
  infinities are written as \<^verbatim>\<open>null\<close>; an \<^verbatim>\<open>undefined\<close> property is dropped and
  so reads back as \<^verbatim>\<open>undefined\<close>.
\<close>

fun json_val :: "jsval \<Rightarrow> jsval" where
  "json_val (Fin a) = Fin a"
| "json_val Undefined = Undefined"
| "json_val _ = Null"

section \<open>The company record\<close>

text \<open>
  The \<^verbatim>\<open>method\<close> property of a result object is the field \<open>methodName\<close>, and
  that of an entry of the weighted valuations is \<open>methodLabel\<close>.

  A year of the financial history is a JSON object read by field name
  (\<^verbatim>\<open>yearData[field]\<close>): a function from field names to values, \<open>Undefined\<close>
  for a field the object does not have. The financial history is the object keyed by year
  label; the nested groups are the groups of the JSON record, with the fields the engine
  reads.
\<close>

type_synonym yearData = "string \<Rightarrow> jsval"

record valuation_result =
  methodName :: string
  totalValue :: jsval
  valuePerShare :: jsval
  currentPrice :: jsval
  upside :: jsval
  notApplicable :: bool
  reason :: "string option"
  assumptions :: "(string \<times> jsval) list"

record market_data =
  currentPrice :: jsval
  marketCap :: jsval
  sharesOutstanding :: jsval
  beta :: jsval

record risk_factors =
  riskFreeRate :: jsval
  marketRiskPremium :: jsval
  specificRiskPremium :: jsval

record leverage_ratios =
  debtToEquity :: jsval

record key_ratios =
  leverageRatios :: leverage_ratios

record growth_metrics =
  fcfGrowth5Y :: jsval
  revenueGrowth5Y :: jsval

record valuation_assumptions =
  terminalGrowthRate :: jsval
  taxRate :: jsval
  dividendGrowthRate :: jsval

record dividend_info =
  currentAnnualDividend :: jsval
  currentDividendYield :: jsval

record company =
  industry :: "string option"
  currency :: "string option"
  exchangeRate :: "(string \<Rightarrow> jsval) option"
  marketData :: market_data
  riskFactors :: risk_factors
  financialHistory :: "(string \<times> yearData) list"
  keyRatios :: key_ratios
  growthMetrics :: growth_metrics
  assumptions :: valuation_assumptions
  dividendInfo :: "dividend_info option"
  convertedFromCurrency :: "string option"
  conversionRate :: jsval

datatype error = TypeError

section \<open>Currency normalization\<close>

text \<open>
  \<^verbatim>\<open>JSON.parse(JSON.stringify(data))\<close>: a deep copy, every number field passed through
  JSON. Strings, present objects and the key set of the financial history are kept.
\<close>

definition json_copy :: "company \<Rightarrow> company" where
  "json_copy d =
     d\<lparr> exchangeRate := map_option (\<lambda>t. json_val \<circ> t) (exchangeRate d),
        marketData := \<lparr> market_data.currentPrice = json_val (market_data.currentPrice (marketData d)),
                        marketCap = json_val (marketCap (marketData d)),
                        sharesOutstanding = json_val (sharesOutstanding (marketData d)),
                        beta = json_val (beta (marketData d)) \<rparr>,
        riskFactors := \<lparr> riskFreeRate = json_val (riskFreeRate (riskFactors d)),
                         marketRiskPremium = json_val (marketRiskPremium (riskFactors d)),
                         specificRiskPremium = json_val (specificRiskPremium (riskFactors d)) \<rparr>,
        financialHistory := map (\<lambda>(year, yearData). (year, json_val \<circ> yearData)) (financialHistory d),
        keyRatios := \<lparr> leverageRatios =
                         \<lparr> debtToEquity = json_val (debtToEquity (leverageRatios (keyRatios d))) \<rparr> \<rparr>,
        growthMetrics := \<lparr> fcfGrowth5Y = json_val (fcfGrowth5Y (growthMetrics d)),
                           revenueGrowth5Y = json_val (revenueGrowth5Y (growthMetrics d)) \<rparr>,
        assumptions := \<lparr> terminalGrowthRate = json_val (terminalGrowthRate (company.assumptions d)),
                         taxRate = json_val (taxRate (company.assumptions d)),
                         dividendGrowthRate = json_val (dividendGrowthRate (company.assumptions d)) \<rparr>,
        dividendInfo := map_option
           (\<lambda>i. \<lparr> currentAnnualDividend = json_val (currentAnnualDividend i),
                   currentDividendYield = json_val (currentDividendYield i) \<rparr>) (dividendInfo d),
        conversionRate := json_val (conversionRate d) \<rparr>"

definition monetaryFields :: "string list" where
  "monetaryFields =
     [''revenue'', ''grossProfit'', ''operatingIncome'', ''netIncome'',
      ''freeCashFlow'', ''operatingCashFlow'', ''capex'', ''totalAssets'',
      ''totalDebt'', ''cashAndEquivalents'', ''shareholdersEquity'',
      ''workingCapital'', ''totalEquity'', ''retainedEarnings'']"

text \<open>The body of \<^verbatim>\<open>monetaryFields.forEach\<close>, one field of one year.\<close>

definition convertField :: "jsval \<Rightarrow> yearData \<Rightarrow> string \<Rightarrow> yearData" where
  "convertField rate yearData field =
     (if yearData field \<noteq> Undefined \<and> yearData field \<noteq> Null
      then yearData(field := yearData field * rate)
      else yearData)"

text \<open>A per-share value is converted when it is truthy.\<close>

definition convertPerShare :: "jsval \<Rightarrow> yearData \<Rightarrow> string \<Rightarrow> yearData" where
  "convertPerShare rate yearData field =
     (if truthy (yearData field)
      then yearData(field := yearData field * rate)
      else yearData)"

text \<open>The body of the loop over the years of the copy.\<close>

definition convertYear :: "jsval \<Rightarrow> yearData \<Rightarrow> yearData" where
  "convertYear rate yearData =
     (let y1 = foldl (convertField rate) yearData monetaryFields;
          y2 = convertPerShare rate y1 ''bookValuePerShare'';
          y3 = convertPerShare rate y2 ''eps''
      in convertPerShare rate y3 ''dividend'')"

text \<open>
  The branch \<^verbatim>\<open>data.currency === 'DKK' && data.exchangeRate\<close>, on the copy;
  \<open>d\<close> is \<^verbatim>\<open>data\<close>, \<open>table\<close> is \<^verbatim>\<open>data.exchangeRate\<close> and \<open>rate\<close> is
  \<^verbatim>\<open>conversionRate\<close>.
\<close>

definition convertDKK :: "company \<Rightarrow> (string \<Rightarrow> jsval) \<Rightarrow> company \<Rightarrow> company" where
  "convertDKK d table copy =
     (let rate = table ''dkkToUsd'';
          n1 = copy\<lparr> financialHistory :=
                 map (\<lambda>(year, yearData). (year, convertYear rate yearData))
                   (financialHistory copy) \<rparr>;
          n2 = (case dividendInfo n1 of
                  None \<Rightarrow> n1
                | Some i \<Rightarrow>
                    if truthy (currentAnnualDividend i)
                    then n1\<lparr> dividendInfo :=
                           Some (i\<lparr> currentAnnualDividend := currentAnnualDividend i * rate \<rparr>) \<rparr>
                    else n1)
      in n2\<lparr> currency := Some ''USD'',
             convertedFromCurrency := currency d,
             conversionRate := rate \<rparr>)"

text \<open>
  Company records are objects on the heap, and \<^verbatim>\<open>convertToUSD\<close> returns a reference:
  the store is the list of the records allocated so far and a reference is an index into
  it. A record in USD (or with no currency) comes back as the same reference; otherwise the
  deep copy is a new object, and every assignment of the function goes to that object.
  Reading a field of \<^verbatim>\<open>undefined\<close> is a \<^verbatim>\<open>TypeError\<close>.
\<close>

type_synonym ref = nat
type_synonym store = "company list"

definition alloc :: "store \<Rightarrow> company \<Rightarrow> store \<times> ref" where
  "alloc h v = (h @ [v], length h)"

definition convertToUSD :: "store \<Rightarrow> ref \<Rightarrow> error + (store \<times> ref)" where
  "convertToUSD h dataRef =
     (if length h \<le> dataRef then Inl TypeError
      else let d = h ! dataRef in
        if currency d = None \<or> currency d = Some [] \<or> currency d = Some ''USD''
        then Inr (h, dataRef)
        else let (h1, copyRef) = alloc h (json_copy d) in
          (case exchangeRate d of
             Some table \<Rightarrow>
               if currency d = Some ''DKK''
               then Inr (h1[copyRef := convertDKK d table (h1 ! copyRef)], copyRef)
               else Inr (h1, copyRef)
           | None \<Rightarrow> Inr (h1, copyRef)))"


section \<open>The calculator and its valuation methods\<close>

text \<open>
  The constructor keeps the record it was given (\<^verbatim>\<open>this.data\<close>) and the result of
  \<^verbatim>\<open>convertToUSD\<close> (\<^verbatim>\<open>this.normalizedData\<close>). The methods only read the two
  records, so they are functions of their values.
\<close>

record calculator_refs =
  dataRef :: ref
  normalizedDataRef :: ref

definition new_ValuationCalculator :: "store \<Rightarrow> ref \<Rightarrow> error + (store \<times> calculator_refs)" where
  "new_ValuationCalculator h companyData =
     (case convertToUSD h companyData of
        Inl e \<Rightarrow> Inl e
      | Inr (h', n) \<Rightarrow> Inr (h', \<lparr> dataRef = companyData, normalizedDataRef = n \<rparr>))"

record calculator =
  data :: company
  normalizedData :: company

definition deref :: "store \<Rightarrow> calculator_refs \<Rightarrow> calculator" where
  "deref h r = \<lparr> data = h ! dataRef r, normalizedData = h ! normalizedDataRef r \<rparr>"

text \<open>
  \<^verbatim>\<open>financialHistory[Object.keys(financialHistory).sort().pop()]\<close>: the year with the
  greatest label in the order of \<^verbatim>\<open>sort()\<close>, which compares strings by code unit. With
  no year at all the lookup gives \<^verbatim>\<open>undefined\<close> (here \<open>None\<close>), and reading a field of
  it raises.
\<close>

definition sortedYears :: "(string \<times> yearData) list \<Rightarrow> string list" where
  "sortedYears fh = sort (map fst fh)"

definition latestYearData :: "(string \<times> yearData) list \<Rightarrow> yearData option" where
  "latestYearData fh =
     (let years = sortedYears fh in if years = [] then None else map_of fh (last years))"

definition calculateCostOfEquity :: "calculator \<Rightarrow> jsval" where
  "calculateCostOfEquity this =
     (let riskFree = riskFreeRate (riskFactors (data this));
          b = beta (marketData (data this));
          premium = marketRiskPremium (riskFactors (data this));
          specificRisk = specificRiskPremium (riskFactors (data this))
      in riskFree + b * premium + specificRisk)"

definition calculateCAGR :: "jsval list \<Rightarrow> jsval" where
  "calculateCAGR values =
     (if length values < 2 then Fin 0
      else let beginValue = hd values;
               endValue = last values;
               years = length values - 1
           in Math_pow (endValue / beginValue) (Fin 1 / Fin (real years)) - Fin 1)"

text \<open>
  The loop of the high-growth period, \<^verbatim>\<open>for (let year = 1; year <= 5; year++)\<close>, over
  the years still to run; the state is \<^verbatim>\<open>(intrinsicValue, currentFCF)\<close>.
\<close>

fun projectFCF :: "jsval \<Rightarrow> jsval \<Rightarrow> nat list \<Rightarrow> jsval \<times> jsval \<Rightarrow> jsval \<times> jsval" where
  "projectFCF initialGrowthRate discountRate [] st = st"
| "projectFCF initialGrowthRate discountRate (year # rest) (intrinsicValue, currentFCF) =
     (let growthRate = initialGrowthRate * Math_pow (Fin 0.85) (Fin (real year - 1));
          currentFCF' = currentFCF * (Fin 1 + growthRate);
          presentValue = currentFCF' / Math_pow (Fin 1 + discountRate) (Fin (real year))
      in projectFCF initialGrowthRate discountRate rest
           (intrinsicValue + presentValue, currentFCF'))"

text \<open>
  \<^verbatim>\<open>calculateFCFE\<close>. The text of the reason embeds
  \<^verbatim>\<open>(latestData.freeCashFlow / 1000000).toFixed(0)\<close>; the number formatting of the
  language is the parameter \<open>toFixed0\<close>.
\<close>

definition calculateFCFE :: "(jsval \<Rightarrow> string) \<Rightarrow> calculator \<Rightarrow> error + valuation_result" where
  "calculateFCFE toFixed0 this =
     (case latestYearData (financialHistory (normalizedData this)) of
        None \<Rightarrow> Inl TypeError
      | Some latestData \<Rightarrow>
          if latestData ''freeCashFlow'' \<le> Fin 0
          then Inr \<lparr> methodName = ''FCFE'',
                     totalValue = Fin 0,
                     valuePerShare = Fin 0,
                     valuation_result.currentPrice = market_data.currentPrice (marketData (data this)),
                     upside = Fin 0,
                     notApplicable = True,
                     reason = Some (''FCFE model not applicable due to negative free cash flow (''
                                @ toFixed0 (latestData ''freeCashFlow'' / Fin 1000000) @ ''M)''),
                     valuation_result.assumptions =
                       [(''initialGrowth'', Fin 0),
                        (''terminalGrowth'', terminalGrowthRate (company.assumptions (data this))),
                        (''discountRate'', calculateCostOfEquity this),
                        (''yearsProjected'', Fin 5)] \<rparr>
          else
            let years = sortedYears (financialHistory (normalizedData this));
                fcfHistory = map (\<lambda>year. case map_of (financialHistory (normalizedData this)) year of
                                             Some yd \<Rightarrow> yd ''freeCashFlow'' | None \<Rightarrow> Undefined) years;
                avgGrowthRate = calculateCAGR fcfHistory;
                initialGrowthRate = Math_min [avgGrowthRate, fcfGrowth5Y (growthMetrics (data this)), Fin 0.15];
                terminalGrowth = terminalGrowthRate (company.assumptions (data this));
                discountRate = calculateCostOfEquity this;
                (intrinsicValue, currentFCF) =
                   projectFCF initialGrowthRate discountRate [1, 2, 3, 4, 5]
                     (Fin 0, latestData ''freeCashFlow'');
                terminalFCF = currentFCF * (Fin 1 + terminalGrowth);
                terminalValue = terminalFCF / (discountRate - terminalGrowth);
                presentTerminalValue = terminalValue / Math_pow (Fin 1 + discountRate) (Fin 5);
                intrinsicValue' = intrinsicValue + presentTerminalValue;
                perShare = intrinsicValue' / sharesOutstanding (marketData (data this))
            in Inr \<lparr> methodName = ''FCFE'',
                      totalValue = intrinsicValue',
                      valuePerShare = perShare,
                      valuation_result.currentPrice = market_data.currentPrice (marketData (data this)),
                      upside = (perShare / market_data.currentPrice (marketData (data this)) - Fin 1) * Fin 100,
                      notApplicable = False,
                      reason = None,
                      valuation_result.assumptions =
                        [(''initialGrowth'', initialGrowthRate),
                         (''terminalGrowth'', terminalGrowth),
                         (''discountRate'', discountRate),
                         (''yearsProjected'', Fin 5)] \<rparr>)"

text \<open>
  \<^verbatim>\<open>calculateDDM\<close>. Its result object has no \<^verbatim>\<open>totalValue\<close>, \<^verbatim>\<open>notApplicable\<close> or
  \<^verbatim>\<open>reason\<close> property: they read as \<open>Undefined\<close>, \<open>False\<close> (falsy) and \<open>None\<close>.
\<close>

definition calculateDDM :: "calculator \<Rightarrow> error + valuation_result" where
  "calculateDDM this =
     (case latestYearData (financialHistory (normalizedData this)) of
        None \<Rightarrow> Inl TypeError
      | Some latestData \<Rightarrow>
          let currentDividend = latestData ''dividend'';
              growth = dividendGrowthRate (company.assumptions (data this));
              requiredReturn = calculateCostOfEquity this;
              nextYearDividend = currentDividend * (Fin 1 + growth);
              perShare = nextYearDividend / (requiredReturn - growth)
          in Inr \<lparr> methodName = ''DDM (Gordon Growth)'',
                    totalValue = Undefined,
                    valuePerShare = perShare,
                    valuation_result.currentPrice = market_data.currentPrice (marketData (data this)),
                    upside = (perShare / market_data.currentPrice (marketData (data this)) - Fin 1) * Fin 100,
                    notApplicable = False,
                    reason = None,
                    valuation_result.assumptions =
                      [(''currentDividend'', currentDividend),
                       (''dividendGrowthRate'', growth),
                       (''requiredReturn'', requiredReturn),
                       (''nextYearDividend'', nextYearDividend)] \<rparr>)"


section \<open>Dynamic weights\<close>

record weights =
  fcfe :: jsval
  fcff :: jsval
  ddm :: jsval
  peRelative :: jsval
  evEbitda :: jsval
  bookValue :: jsval
  capitalizedEarnings :: jsval

record relative_results =
  peValuation :: valuation_result
  pbValuation :: valuation_result
  evEbitdaValuation :: valuation_result

record asset_results =
  bookValue :: valuation_result
  tangibleBookValue :: valuation_result
  liquidationValue :: valuation_result

record earnings_results =
  capitalizedEarnings :: valuation_result
  earningsPowerValue :: valuation_result

text \<open>\<^verbatim>\<open>String.prototype.includes\<close>: the argument occurs as a contiguous substring.\<close>

fun startsWith :: "string \<Rightarrow> string \<Rightarrow> bool" where
  "startsWith s [] = True"
| "startsWith [] (c # cs) = False"
| "startsWith (x # xs) (c # cs) = (x = c \<and> startsWith xs cs)"

fun includes_str :: "string \<Rightarrow> string \<Rightarrow> bool" where
  "includes_str [] sub = (sub = [])"
| "includes_str (x # xs) sub = (startsWith (x # xs) sub \<or> includes_str xs sub)"

definition assetHeavy :: "string \<Rightarrow> bool" where
  "assetHeavy ind =
     (includes_str ind ''Heavy Construction'' \<or> includes_str ind ''Farm'' \<or> includes_str ind ''Machinery'')"

definition baseWeights :: weights where
  "baseWeights =
     \<lparr> fcfe = Fin 0.25, fcff = Fin 0.25, ddm = Fin 0.15, peRelative = Fin 0.15,
       evEbitda = Fin 0.10, weights.bookValue = Fin 0.05,
       weights.capitalizedEarnings = Fin 0.05 \<rparr>"

text \<open>Lines 378 to 421: the adjustments for industry, size, debt, beta and dividend yield.\<close>

definition industryAdjustment :: "string \<Rightarrow> weights \<Rightarrow> weights" where
  "industryAdjustment ind w =
     (if assetHeavy ind
      then w\<lparr> fcfe := Fin 0.20, fcff := Fin 0.20, ddm := Fin 0.10, peRelative := Fin 0.20,
             evEbitda := Fin 0.15, weights.bookValue := Fin 0.10,
             weights.capitalizedEarnings := Fin 0.05 \<rparr>
      else w)"

definition sizeAdjustment :: "jsval \<Rightarrow> weights \<Rightarrow> weights" where
  "sizeAdjustment cap w =
     (if cap > Fin 100000000000
      then w\<lparr> weights.capitalizedEarnings := weights.capitalizedEarnings w + Fin 0.05,
             ddm := ddm w + Fin 0.05,
             fcfe := fcfe w - Fin 0.05,
             fcff := fcff w - Fin 0.05 \<rparr>
      else w)"

definition debtAdjustment :: "jsval \<Rightarrow> weights \<Rightarrow> weights" where
  "debtAdjustment dte w =
     (if dte > Fin 2
      then w\<lparr> fcff := fcff w + Fin 0.10, fcfe := fcfe w - Fin 0.10 \<rparr>
      else w)"

definition betaAdjustment :: "jsval \<Rightarrow> weights \<Rightarrow> weights" where
  "betaAdjustment b w =
     (if b > Fin 1.3
      then w\<lparr> fcfe := fcfe w - Fin 0.05,
             fcff := fcff w - Fin 0.05,
             peRelative := peRelative w + Fin 0.05,
             evEbitda := evEbitda w + Fin 0.05 \<rparr>
      else w)"

text \<open>\<^verbatim>\<open>this.data.dividendInfo?.currentDividendYield || 0\<close>.\<close>

definition dividendYieldOf :: "company \<Rightarrow> jsval" where
  "dividendYieldOf d =
     (let y = (case dividendInfo d of None \<Rightarrow> Undefined | Some i \<Rightarrow> currentDividendYield i)
      in if truthy y then y else Fin 0)"

definition dividendAdjustment :: "jsval \<Rightarrow> weights \<Rightarrow> weights" where
  "dividendAdjustment dividendYield w =
     (if dividendYield > Fin 0.03
      then w\<lparr> ddm := ddm w + Fin 0.05,
             fcfe := fcfe w - Fin 0.025,
             fcff := fcff w - Fin 0.025 \<rparr>
      else w)"

text \<open>Lines 426 to 431: halve the weight of an extreme valuation.\<close>

definition extremeCheck ::
  "valuation_result \<Rightarrow> valuation_result \<Rightarrow> valuation_result \<Rightarrow> relative_results \<Rightarrow> weights \<Rightarrow> weights" where
  "extremeCheck fcfeResult fcffResult ddmResult relativeResults w =
     (let w1 = (if \<bar>upside fcfeResult\<bar> > Fin 100 then w\<lparr> fcfe := fcfe w * Fin 0.5 \<rparr> else w);
          w2 = (if \<bar>upside fcffResult\<bar> > Fin 100 then w1\<lparr> fcff := fcff w1 * Fin 0.5 \<rparr> else w1);
          w3 = (if \<bar>upside ddmResult\<bar> > Fin 100 then w2\<lparr> ddm := ddm w2 * Fin 0.5 \<rparr> else w2);
          w4 = (if \<bar>upside (peValuation relativeResults)\<bar> > Fin 100
                then w3\<lparr> peRelative := peRelative w3 * Fin 0.5 \<rparr> else w3)
      in if \<bar>upside (evEbitdaValuation relativeResults)\<bar> > Fin 100
         then w4\<lparr> evEbitda := evEbitda w4 * Fin 0.5 \<rparr> else w4)"

text \<open>Lines 433 to 438: filter out negative or unrealistic valuations.\<close>

definition filterCheck ::
  "valuation_result \<Rightarrow> valuation_result \<Rightarrow> valuation_result \<Rightarrow> asset_results \<Rightarrow> weights \<Rightarrow> weights" where
  "filterCheck fcfeResult fcffResult ddmResult assetResults w =
     (let w1 = (if valuePerShare fcfeResult \<le> Fin 0 \<or> \<bar>upside fcfeResult\<bar> > Fin 150
                   \<or> notApplicable fcfeResult
                then w\<lparr> fcfe := Fin 0 \<rparr> else w);
          w2 = (if valuePerShare fcffResult \<le> Fin 0 \<or> \<bar>upside fcffResult\<bar> > Fin 150
                then w1\<lparr> fcff := Fin 0 \<rparr> else w1);
          w3 = (if valuePerShare ddmResult \<le> Fin 0 \<or> \<bar>upside ddmResult\<bar> > Fin 150
                then w2\<lparr> ddm := Fin 0 \<rparr> else w2);
          w4 = (if valuePerShare (asset_results.bookValue assetResults) \<le> Fin 0
                then w3\<lparr> weights.bookValue := Fin 0 \<rparr> else w3)
      in if valuePerShare (liquidationValue assetResults) \<le> Fin 0
         then w4\<lparr> weights.bookValue := Fin 0 \<rparr> else w4)"

text \<open>Lines 440 to 445: the minimum asset-based weight of an asset-heavy company.\<close>

definition assetFloor :: "string \<Rightarrow> asset_results \<Rightarrow> weights \<Rightarrow> weights" where
  "assetFloor ind assetResults w =
     (if assetHeavy ind
      then (if weights.bookValue w = Fin 0
               \<and> valuePerShare (tangibleBookValue assetResults) > Fin 0
            then w\<lparr> weights.bookValue := Fin 0.05 \<rparr> else w)
      else w)"

text \<open>
  Lines 447 to 451: \<^verbatim>\<open>Object.values(weights).reduce\<close> adds the weights in key order
  from 0, and every weight is divided by the total.
\<close>

definition totalWeight :: "weights \<Rightarrow> jsval" where
  "totalWeight w =
     foldl (+) (Fin 0)
       [fcfe w, fcff w, ddm w, peRelative w, evEbitda w, weights.bookValue w,
        weights.capitalizedEarnings w]"

definition normalizeWeights :: "weights \<Rightarrow> weights" where
  "normalizeWeights w =
     (let total = totalWeight w
      in \<lparr> fcfe = fcfe w / total, fcff = fcff w / total, ddm = ddm w / total,
           peRelative = peRelative w / total, evEbitda = evEbitda w / total,
           weights.bookValue = weights.bookValue w / total,
           weights.capitalizedEarnings = weights.capitalizedEarnings w / total \<rparr>)"

text \<open>The weights before the normalization, lines 367 to 445.\<close>

definition adjustedWeights ::
  "company \<Rightarrow> string \<Rightarrow> valuation_result \<Rightarrow> valuation_result \<Rightarrow> valuation_result
     \<Rightarrow> relative_results \<Rightarrow> asset_results \<Rightarrow> weights" where
  "adjustedWeights d ind fcfeResult fcffResult ddmResult relativeResults assetResults =
     (let w1 = industryAdjustment ind baseWeights;
          w2 = sizeAdjustment (marketCap (marketData d)) w1;
          w3 = debtAdjustment (debtToEquity (leverageRatios (keyRatios d))) w2;
          w4 = betaAdjustment (beta (marketData d)) w3;
          w5 = dividendAdjustment (dividendYieldOf d) w4;
          w6 = extremeCheck fcfeResult fcffResult ddmResult relativeResults w5;
          w7 = filterCheck fcfeResult fcffResult ddmResult assetResults w6
      in assetFloor ind assetResults w7)"

text \<open>
  \<^verbatim>\<open>calculateDynamicWeights\<close>. A record with no \<^verbatim>\<open>industry\<close> makes
  \<^verbatim>\<open>industry.includes\<close> raise. The argument \<^verbatim>\<open>earningsResults\<close> is not read.
\<close>

definition calculateDynamicWeights ::
  "calculator \<Rightarrow> valuation_result \<Rightarrow> valuation_result \<Rightarrow> valuation_result
     \<Rightarrow> relative_results \<Rightarrow> asset_results \<Rightarrow> earnings_results \<Rightarrow> error + weights" where
  "calculateDynamicWeights this fcfeResult fcffResult ddmResult relativeResults assetResults
       earningsResults =
     (case industry (data this) of
        None \<Rightarrow> Inl TypeError
      | Some ind \<Rightarrow>
          Inr (normalizeWeights
                 (adjustedWeights (data this) ind fcfeResult fcffResult ddmResult
                    relativeResults assetResults)))"

section \<open>Recommendation and confidence\<close>

definition getRecommendation :: "jsval \<Rightarrow> jsval \<Rightarrow> string" where
  "getRecommendation ups marginOfSafety =
     (if ups > Fin 20 \<and> marginOfSafety > Fin 15 then ''Strong Buy''
      else if ups > Fin 10 \<and> marginOfSafety > Fin 10 then ''Buy''
      else if ups > Fin 0 \<and> marginOfSafety > Fin 5 then ''Hold''
      else if ups > Fin (- 10) then ''Hold''
      else ''Sell'')"

record weighted_valuation =
  methodLabel :: string
  "value" :: jsval
  weight :: jsval

definition calculateConfidence :: "weighted_valuation list \<Rightarrow> string" where
  "calculateConfidence valuations =
     (let vals = map value valuations;
          mean = foldl (+) (Fin 0) vals / Fin (real (length vals));
          variance = foldl (\<lambda>sum val. sum + Math_pow (val - mean) (Fin 2)) (Fin 0) vals
                       / Fin (real (length vals));
          stdDev = Math_sqrt variance;
          coefficientOfVariation = stdDev / mean
      in if coefficientOfVariation < Fin 0.2 then ''High''
         else if coefficientOfVariation < Fin 0.4 then ''Medium''
         else ''Low'')"

section \<open>Example records\<close>

text \<open>
  The record of the repository's test suite (one year, 2024), and variations of it used
  below to run the methods on concrete inputs.
\<close>

definition mockYear :: yearData where
  "mockYear =
     (\<lambda>field. Undefined)
       (''revenue'' := Fin 1000000000, ''netIncome'' := Fin 100000000,
        ''freeCashFlow'' := Fin 80000000, ''operatingCashFlow'' := Fin 120000000,
        ''capex'' := Fin 40000000, ''totalDebt'' := Fin 500000000,
        ''cashAndEquivalents'' := Fin 50000000, ''shareholdersEquity'' := Fin 800000000,
        ''bookValuePerShare'' := Fin 8, ''eps'' := Fin 1, ''dividend'' := Fin 0.5,
        ''totalAssets'' := Fin 1500000000, ''operatingIncome'' := Fin 150000000)"

definition mockData :: company where
  "mockData =
     \<lparr> industry = None, currency = None, exchangeRate = None,
       marketData = \<lparr> market_data.currentPrice = Fin 100, marketCap = Fin 10000000000,
                      sharesOutstanding = Fin 100000000, beta = Fin 1.2 \<rparr>,
       riskFactors = \<lparr> riskFreeRate = Fin 0.03, marketRiskPremium = Fin 0.06,
                       specificRiskPremium = Fin 0.01 \<rparr>,
       financialHistory = [(''2024'', mockYear)],
       keyRatios = \<lparr> leverageRatios = \<lparr> debtToEquity = Fin 0.625 \<rparr> \<rparr>,
       growthMetrics = \<lparr> fcfGrowth5Y = Fin 0.08, revenueGrowth5Y = Fin 0.06 \<rparr>,
       assumptions = \<lparr> terminalGrowthRate = Fin 0.025, taxRate = Fin 0.25,
                       dividendGrowthRate = Fin 0.05 \<rparr>,
       dividendInfo = None, convertedFromCurrency = None, conversionRate = Undefined \<rparr>"

definition equalRatesData :: company where
  "equalRatesData =
     mockData\<lparr> marketData := (marketData mockData)\<lparr> beta := Fin 0 \<rparr>,
               riskFactors := \<lparr> riskFreeRate = Fin 0.08, marketRiskPremium = Fin 0.06,
                               specificRiskPremium = Fin 0 \<rparr>,
               assumptions := (company.assumptions mockData)\<lparr> dividendGrowthRate := Fin 0.08 \<rparr> \<rparr>"

definition negativeFcfData :: company where
  "negativeFcfData =
     mockData\<lparr> financialHistory :=
       [(''2023'', mockYear), (''2024'', mockYear(''freeCashFlow'' := Fin (- 1)))] \<rparr>"

text \<open>
  The test record without a dividend in its year, and with a dividend growth rate of 0.15,
  above its cost of equity of 0.112.
\<close>

definition noDividendData :: company where
  "noDividendData =
     mockData\<lparr> financialHistory := [(''2024'', mockYear(''dividend'' := Undefined))] \<rparr>"

definition fastGrowthData :: company where
  "fastGrowthData =
     mockData\<lparr> assumptions := (company.assumptions mockData)\<lparr> dividendGrowthRate := Fin 0.15 \<rparr> \<rparr>"

section \<open>Mean, standard deviation and coefficient of variation\<close>

text \<open>
  The statistics the confidence score is specified with, on real numbers: the mean, the
  population standard deviation, and their quotient.
\<close>

definition mean_of :: "real list \<Rightarrow> real" where
  "mean_of xs = sum_list xs / real (length xs)"

definition stddev_of :: "real list \<Rightarrow> real" where
  "stddev_of xs = sqrt (sum_list (map (\<lambda>x. (x - mean_of xs)\<^sup>2) xs) / real (length xs))"

definition coefficient_of_variation :: "real list \<Rightarrow> real" where
  "coefficient_of_variation xs = stddev_of xs / mean_of xs"

text \<open>An entry of the weighted valuations with the given value.\<close>

definition entry :: "real \<Rightarrow> weighted_valuation" where
  "entry x = \<lparr> methodLabel = ''m'', value = Fin x, weight = Fin 0.5 \<rparr>"

section \<open>Bounds on the weights\<close>

text \<open>
  A finite number with a lower bound, and a weight set whose seven entries are finite
  numbers with the given lower bounds.
\<close>

definition finAbove :: "real \<Rightarrow> jsval \<Rightarrow> bool" where
  "finAbove l v = (\<exists>x. v = Fin x \<and> l \<le> x)"

definition weightsAbove ::
  "real \<Rightarrow> real \<Rightarrow> real \<Rightarrow> real \<Rightarrow> real \<Rightarrow> real \<Rightarrow> real \<Rightarrow> weights \<Rightarrow> bool" where
  "weightsAbove la lb lc ld le lf lg w =
     (finAbove la (fcfe w) \<and> finAbove lb (fcff w) \<and> finAbove lc (ddm w)
      \<and> finAbove ld (peRelative w) \<and> finAbove le (evEbitda w)
      \<and> finAbove lf (weights.bookValue w) \<and> finAbove lg (weights.capitalizedEarnings w))"

text \<open>The weights after the adjustments for industry, size, debt, beta and dividend yield.\<close>

definition characteristicWeights :: "company \<Rightarrow> string \<Rightarrow> weights" where
  "characteristicWeights d ind =
     dividendAdjustment (dividendYieldOf d)
       (betaAdjustment (beta (marketData d))
          (debtAdjustment (debtToEquity (leverageRatios (keyRatios d)))
             (sizeAdjustment (marketCap (marketData d))
                (industryAdjustment ind baseWeights))))"

section \<open>Example method results\<close>

text \<open>A method result with the given value per share and upside, at a price of 100.\<close>

definition resultOf :: "real \<Rightarrow> real \<Rightarrow> valuation_result" where
  "resultOf v u =
     \<lparr> methodName = ''example'', totalValue = Undefined, valuePerShare = Fin v,
       valuation_result.currentPrice = Fin 100, upside = Fin u, notApplicable = False,
       reason = None, valuation_result.assumptions = [] \<rparr>"

definition moderateRelative :: relative_results where
  "moderateRelative =
     \<lparr> peValuation = resultOf 110 10, pbValuation = resultOf 110 10,
       evEbitdaValuation = resultOf 110 10 \<rparr>"

text \<open>An EV/EBITDA value of three times the price: an upside of 200 percent.\<close>

definition extremeRelative :: relative_results where
  "extremeRelative = moderateRelative\<lparr> evEbitdaValuation := resultOf 300 200 \<rparr>"

definition positiveAssets :: asset_results where
  "positiveAssets =
     \<lparr> asset_results.bookValue = resultOf 8 (- 92),
       tangibleBookValue = resultOf 6.95 (- 93.05),
       liquidationValue = resultOf 3.5 (- 96.5) \<rparr>"

text \<open>A positive book value together with a negative liquidation value.\<close>

definition negativeLiquidation :: asset_results where
  "negativeLiquidation = positiveAssets\<lparr> liquidationValue := resultOf (- 2.5) (- 102.5) \<rparr>"

definition someEarnings :: earnings_results where
  "someEarnings =
     \<lparr> earnings_results.capitalizedEarnings = resultOf 90 (- 10),
       earningsPowerValue = resultOf 90 (- 10) \<rparr>"

definition softwareData :: company where
  "softwareData = mockData\<lparr> industry := Some ''Software'' \<rparr>"

text \<open>The test record as a company of the industry of \<^verbatim>\<open>data/cat.json\<close>.\<close>

definition industrialData :: company where
  "industrialData = mockData\<lparr> industry := Some ''Farm & Heavy Construction Machinery'' \<rparr>"

section \<open>Example records in other currencies\<close>

definition usdData :: company where
  "usdData = mockData\<lparr> currency := Some ''USD'' \<rparr>"

text \<open>The exchange-rate table of \<^verbatim>\<open>data/nvo.json\<close>, and a table without \<^verbatim>\<open>dkkToUsd\<close>.\<close>

definition dkkTable :: "string \<Rightarrow> jsval" where
  "dkkTable = (\<lambda>key. Undefined)(''usdToDkk'' := Fin 6.9, ''dkkToUsd'' := Fin 0.1449)"

definition dkkData :: company where
  "dkkData = mockData\<lparr> currency := Some ''DKK'', exchangeRate := Some dkkTable \<rparr>"

definition dkkNoRateData :: company where
  "dkkNoRateData =
     mockData\<lparr> currency := Some ''DKK'',
               exchangeRate := Some ((\<lambda>key. Undefined)(''usdToDkk'' := Fin 6.9)) \<rparr>"

definition eurData :: company where
  "eurData = mockData\<lparr> currency := Some ''EUR'', exchangeRate := Some dkkTable \<rparr>"

text \<open>
  The DKK records above with a free cash flow of -1: with the table of rates, and with the
  table that has no \<^verbatim>\<open>dkkToUsd\<close>.
\<close>

definition dkkNegativeFcfData :: company where
  "dkkNegativeFcfData =
     dkkData\<lparr> financialHistory := [(''2024'', mockYear(''freeCashFlow'' := Fin (- 1)))] \<rparr>"

definition dkkNoRateNegativeFcfData :: company where
  "dkkNoRateNegativeFcfData =
     dkkNoRateData\<lparr> financialHistory := [(''2024'', mockYear(''freeCashFlow'' := Fin (- 1)))] \<rparr>"

section \<open>Facts about the arithmetic\<close>

lemma Fin_arith [simp]:
  "Fin a + Fin b = Fin (a + b)"
  "Fin a - Fin b = Fin (a - b)"
  "Fin a * Fin b = Fin (a * b)"
  "b \<noteq> 0 \<Longrightarrow> Fin a / Fin b = Fin (a / b)"
  "\<bar>Fin a\<bar> = Fin \<bar>a\<bar>"
  "(Fin a < Fin b) = (a < b)"
  "(Fin a \<le> Fin b) = (a \<le> b)"
  by (simp_all add: plus_jsval_def minus_jsval_def times_jsval_def divide_jsval_def
      abs_jsval_def less_jsval_def less_eq_jsval_def)

lemma div_by_zero:
  "Fin a / Fin 0 = (if a = 0 then NaN else if 0 < a then PosInf else NegInf)"
  by (simp add: divide_jsval_def)

lemma NaN_compare [simp]:
  "(NaN < v) = False" "(v < NaN) = False" "(NaN \<le> v) = False" "(v \<le> NaN) = False"
  "(Undefined < v) = False" "(v < Undefined) = False"
  "(Undefined \<le> v) = False" "(v \<le> Undefined) = False"
  by (cases v; simp add: less_jsval_def less_eq_jsval_def)+

section \<open>The latest year\<close>

lemma latestYearData_nonempty:
  assumes "fh \<noteq> []"
  shows "\<exists>yd. latestYearData fh = Some yd"
proof -
  let ?ks = "sort (map fst fh)"
  have ne: "?ks \<noteq> []" using assms by (metis length_sort length_map length_0_conv)
  then have "last ?ks \<in> set ?ks" by (rule last_in_set)
  then have "last ?ks \<in> fst ` set fh" by simp
  then have "map_of fh (last ?ks) \<noteq> None" by (simp add: map_of_eq_None_iff)
  with ne show ?thesis by (auto simp: latestYearData_def sortedYears_def Let_def)
qed

lemma latestYearData_empty: "latestYearData [] = None"
  by (simp add: latestYearData_def sortedYears_def)

text \<open>The cost of equity of the test record, as the test suite expects it.\<close>

lemma calculateCostOfEquity_mock:
  "calculateCostOfEquity \<lparr> data = mockData, normalizedData = mockData \<rparr> = Fin 0.112"
  by (simp add: calculateCostOfEquity_def mockData_def)

section \<open>FCFE on a non-positive free cash flow\<close>

text \<open>
  The guard of \<^verbatim>\<open>calculateFCFE\<close> reads the normalized record. When the free cash
  flow of its latest year is less than or equal to zero (in the sense of the comparison
  \<^verbatim>\<open>latestData.freeCashFlow <= 0\<close>, so also for \<^verbatim>\<open>null\<close>), the result is flagged
  not applicable, with the reason text, and with value per share, total value and upside
  all 0. The latest year exists as soon as the history has a year
  (\<open>latestYearData_nonempty\<close>).
\<close>

lemma calculateFCFE_nonpositive:
  assumes "latestYearData (financialHistory (normalizedData this)) = Some latestData"
    and "latestData ''freeCashFlow'' \<le> Fin 0"
  shows "\<exists>r. calculateFCFE toFixed0 this = Inr r \<and> notApplicable r
           \<and> reason r = Some (''FCFE model not applicable due to negative free cash flow (''
                               @ toFixed0 (latestData ''freeCashFlow'' / Fin 1000000) @ ''M)'')
           \<and> valuePerShare r = Fin 0 \<and> totalValue r = Fin 0 \<and> upside r = Fin 0"
  using assms by (simp add: calculateFCFE_def)

text \<open>The record with a latest free cash flow of -1 (and an earlier positive year).\<close>

lemma calculateFCFE_negative_example:
  "\<exists>r. calculateFCFE (\<lambda>v. ''-0'') \<lparr> data = negativeFcfData, normalizedData = negativeFcfData \<rparr> = Inr r
       \<and> notApplicable r
       \<and> reason r = Some ''FCFE model not applicable due to negative free cash flow (-0M)''
       \<and> valuePerShare r = Fin 0 \<and> totalValue r = Fin 0 \<and> upside r = Fin 0"
proof -
  have l: "latestYearData (financialHistory (normalizedData
             \<lparr> data = negativeFcfData, normalizedData = negativeFcfData \<rparr>))
           = Some (mockYear(''freeCashFlow'' := Fin (- 1)))"
    by (simp add: negativeFcfData_def latestYearData_def sortedYears_def)
  have c: "(mockYear(''freeCashFlow'' := Fin (- 1))) ''freeCashFlow'' \<le> Fin 0" by simp
  show ?thesis
    using calculateFCFE_nonpositive [OF l c, of "\<lambda>v. ''-0''"] by simp
qed

text \<open>
  On the test record itself (a positive free cash flow, one year of history, so a growth
  rate of 0) the method runs the projection and returns a positive value per share, as
  the test suite expects.
\<close>

lemma Math_pow_Fin_numeral:
  "0 < x \<Longrightarrow> Math_pow (Fin x) (Fin (numeral n)) = Fin (x ^ numeral n)"
  "0 < x \<Longrightarrow> Math_pow (Fin x) (Fin 1) = Fin x"
  "Math_pow (Fin x) (Fin 0) = Fin 1"
  by (simp_all add: Math_pow_def)

lemma projectFCF_mock:
  "projectFCF (Fin 0) (Fin 0.112) [1, 2, 3, 4, 5] (Fin 0, Fin 80000000) =
     (Fin (80000000 / 1.112 + 80000000 / 1.112 ^ 2 + 80000000 / 1.112 ^ 3
           + 80000000 / 1.112 ^ 4 + 80000000 / 1.112 ^ 5), Fin 80000000)"
  by (simp add: Math_pow_Fin_numeral Let_def)

lemma calculateFCFE_mock:
  "\<exists>r v. calculateFCFE toFixed0 \<lparr> data = mockData, normalizedData = mockData \<rparr> = Inr r
     \<and> \<not> notApplicable r \<and> valuePerShare r = Fin v \<and> 0 < v"
proof -
  have cagr: "calculateCAGR [Fin 80000000] = Fin 0" by (simp add: calculateCAGR_def)
  have m: "Math_min [Fin 0, Fin (2 / 25), Fin (3 / 20)] = Fin 0"
    by (simp add: Math_min_def num_min_def less_jsval_def)
  have pos: "\<exists>v. a = v * 100000000 \<and> 0 < v" if "0 < a" for a :: real
    using that by (intro exI [of _ "a / 100000000"]) simp
  show ?thesis
    apply (simp add: calculateFCFE_def mockData_def latestYearData_def sortedYears_def
        mockYear_def calculateCostOfEquity_def cagr m projectFCF_mock [simplified]
        Math_pow_Fin_numeral Let_def)
    apply (rule pos)
    apply (intro add_pos_pos divide_pos_pos mult_pos_pos zero_less_power)
    apply simp_all
    done
qed

section \<open>The recommendation rules\<close>

text \<open>
  C6. On finite numbers \<^verbatim>\<open>getRecommendation\<close> applies its rules in order, the first
  match winning, with strict comparisons: upside above 20 and margin of safety above 15
  give Strong Buy; else upside above 10 and margin above 10 give Buy; else upside above 0
  and margin above 5 give Hold; else upside above -10 gives Hold; otherwise Sell. The
  boundary input (20, 15) is a Buy.
\<close>

theorem getRecommendation_rules:
  "getRecommendation (Fin u) (Fin m) =
     (if 20 < u \<and> 15 < m then ''Strong Buy''
      else if 10 < u \<and> 10 < m then ''Buy''
      else if 0 < u \<and> 5 < m then ''Hold''
      else if - 10 < u then ''Hold''
      else ''Sell'')
   \<and> getRecommendation (Fin 20) (Fin 15) = ''Buy''"
  by (simp add: getRecommendation_def)

section \<open>DDM with the required return equal to the growth rate\<close>

text \<open>
  C1. \<^verbatim>\<open>calculateDDM\<close> has no guard: on the record with a cost of equity of 0.08
  (risk-free rate 0.08, beta 0) and a dividend growth rate of 0.08, and a dividend of 0.5,
  the value per share and the upside are \<^verbatim>\<open>Infinity\<close> and the result is not flagged.
\<close>

theorem calculateDDM_equal_rates:
  "\<exists>r. calculateDDM \<lparr> data = equalRatesData, normalizedData = equalRatesData \<rparr> = Inr r
     \<and> valuePerShare r = PosInf \<and> upside r = PosInf \<and> \<not> notApplicable r \<and> reason r = None"
  by (simp add: calculateDDM_def equalRatesData_def mockData_def latestYearData_def
      sortedYears_def calculateCostOfEquity_def mockYear_def Let_def divide_jsval_def
      minus_jsval_def times_jsval_def)

text \<open>
  The same holds for the other inputs the method cannot value. With no dividend in the
  latest year the value per share is \<^verbatim>\<open>NaN\<close>; with a growth rate above the required
  return it is negative (here \<open>0.5 * 1.15 / (0.112 - 0.15)\<close>). Neither result is flagged.
\<close>

lemma calculateDDM_absent_dividend:
  "\<exists>r. calculateDDM \<lparr> data = noDividendData, normalizedData = noDividendData \<rparr> = Inr r
     \<and> valuePerShare r = NaN \<and> upside r = NaN \<and> \<not> notApplicable r \<and> reason r = None"
  by (simp add: calculateDDM_def noDividendData_def mockData_def latestYearData_def
      sortedYears_def calculateCostOfEquity_def mockYear_def Let_def divide_jsval_def
      minus_jsval_def times_jsval_def)

lemma calculateDDM_growth_above_return:
  "\<exists>r. calculateDDM \<lparr> data = fastGrowthData, normalizedData = fastGrowthData \<rparr> = Inr r
     \<and> valuePerShare r = Fin (- (575 / 38)) \<and> \<not> notApplicable r \<and> reason r = None"
  by (simp add: calculateDDM_def fastGrowthData_def mockData_def latestYearData_def
      sortedYears_def calculateCostOfEquity_def mockYear_def Let_def)

section \<open>Compound annual growth rate\<close>

lemma Math_pow_Fin_pos:
  assumes "0 \<le> x" "0 < y"
  shows "Math_pow (Fin x) (Fin y) = Fin (x powr y)"
  using assms by (auto simp: Math_pow_def)

text \<open>
  C3 (as amended). A sequence of fewer than two values has growth rate 0. For a longer
  sequence with finite first value \<open>b\<close> (not zero) and finite last value \<open>e\<close> of
  non-negative ratio, \<^verbatim>\<open>calculateCAGR\<close> returns \<open>(e/b)\<close> to the power
  \<open>1/n\<close>, minus 1, where the number of periods \<open>n\<close> is the number of values minus
  one. So the two values 100, 121 span one period and give 0.21, and the three values
  100, 110, 121 span two periods and give 0.10.
\<close>

theorem calculateCAGR_formula:
  "(length vs < 2 \<longrightarrow> calculateCAGR vs = Fin 0)
   \<and> (2 \<le> length vs \<and> hd vs = Fin b \<and> last vs = Fin e \<and> b \<noteq> 0 \<and> 0 \<le> e / b
        \<longrightarrow> calculateCAGR vs = Fin ((e / b) powr (1 / real (length vs - 1)) - 1))
   \<and> calculateCAGR [Fin 100, Fin 121] = Fin 0.21
   \<and> calculateCAGR [Fin 100, Fin 110, Fin 121] = Fin 0.1"
proof (intro conjI impI)
  show "calculateCAGR vs = Fin 0" if "length vs < 2"
    using that by (simp add: calculateCAGR_def)
next
  assume a: "2 \<le> length vs \<and> hd vs = Fin b \<and> last vs = Fin e \<and> b \<noteq> 0 \<and> 0 \<le> e / b"
  then have n: "0 < 1 / real (length vs - 1)" by simp
  from a have "calculateCAGR vs
      = Math_pow (Fin (e / b)) (Fin (1 / real (length vs - 1))) - Fin 1"
    by (simp add: calculateCAGR_def Let_def)
  also have "\<dots> = Fin ((e / b) powr (1 / real (length vs - 1)) - 1)"
    using a n by (simp add: Math_pow_Fin_pos)
  finally show "calculateCAGR vs = Fin ((e / b) powr (1 / real (length vs - 1)) - 1)" .
next
  show "calculateCAGR [Fin 100, Fin 121] = Fin 0.21"
    by (simp add: calculateCAGR_def Math_pow_Fin_pos)
next
  have "(121 / 100 :: real) powr (1 / 2) = sqrt ((11 / 10)\<^sup>2)"
    by (simp add: powr_half_sqrt power2_eq_square)
  then have r: "(121 / 100 :: real) powr (1 / 2) = 11 / 10"
    by (simp del: real_sqrt_power)
  show "calculateCAGR [Fin 100, Fin 110, Fin 121] = Fin 0.1"
    by (simp add: calculateCAGR_def Math_pow_Fin_pos r)
qed

text \<open>The single value and the four values of the repository's tests.\<close>

theorem calculateCAGR_formula_witness:
  "calculateCAGR [Fin 100] = Fin 0
   \<and> calculateCAGR [Fin 100, Fin 110, Fin 121, Fin 133.1]
       = Fin ((133.1 / 100) powr (1 / 3) - 1)"
  using calculateCAGR_formula [of "[Fin 100]"]
    calculateCAGR_formula [of "[Fin 100, Fin 110, Fin 121, Fin 133.1]" 100 "133.1"]
  by simp

text \<open>
  C3 as stated fails on the sequence 100, 121: the result is not within 0.000001 of 0.10.
\<close>

theorem calculateCAGR_100_121_counterexample:
  "\<not> (\<exists>r. calculateCAGR [Fin 100, Fin 121] = Fin r \<and> \<bar>r - 0.10\<bar> \<le> 1 / 1000000)"
  by (simp add: calculateCAGR_def Math_pow_Fin_pos)

section \<open>Confidence\<close>

lemma Math_pow_square: "Math_pow (Fin d) (Fin 2) = Fin (d\<^sup>2)"
proof -
  have "is_integer 2" by (simp add: is_integer_def)
  moreover have "\<not> is_odd_integer 2" by (simp add: is_odd_integer_def)
  moreover have "0 < d \<Longrightarrow> d powr 2 = d\<^sup>2" by simp
  moreover have "d < 0 \<Longrightarrow> \<bar>d\<bar> powr 2 = d\<^sup>2" by simp
  ultimately show ?thesis by (auto simp: Math_pow_def)
qed

lemma foldl_add_Fin: "foldl (+) (Fin a) (map Fin xs) = Fin (a + sum_list xs)"
  by (induction xs arbitrary: a) (simp_all add: add.assoc)

lemma foldl_squares_Fin:
  "foldl (\<lambda>sum val. sum + Math_pow (val - Fin m) (Fin 2)) (Fin a) (map Fin xs)
     = Fin (a + sum_list (map (\<lambda>x. (x - m)\<^sup>2) xs))"
  by (induction xs arbitrary: a) (simp_all add: Math_pow_square add.assoc)

lemma confidence_of_cv:
  assumes "map value valuations = map Fin xs" "xs \<noteq> []"
  shows "calculateConfidence valuations =
     (let cv = Fin (stddev_of xs) / Fin (mean_of xs)
      in if cv < Fin 0.2 then ''High'' else if cv < Fin 0.4 then ''Medium'' else ''Low'')"
proof -
  have n: "real (length xs) \<noteq> 0" using assms(2) by simp
  have v: "0 \<le> sum_list (map (\<lambda>x. (x - mean_of xs)\<^sup>2) xs) / real (length xs)"
    by (intro divide_nonneg_nonneg sum_list_nonneg) auto
  have m: "foldl (+) (Fin 0) (map Fin xs) / Fin (real (length xs)) = Fin (mean_of xs)"
    using n by (simp add: foldl_add_Fin mean_of_def)
  have s: "Math_sqrt (foldl (\<lambda>sum val. sum + Math_pow (val - Fin (mean_of xs)) (Fin 2)) (Fin 0)
                (map Fin xs) / Fin (real (length xs))) = Fin (stddev_of xs)"
    using n v by (simp add: foldl_squares_Fin stddev_of_def)
  show ?thesis
    unfolding calculateConfidence_def assms(1) Let_def length_map m s ..
qed

text \<open>
  C8. On finite method values with a mean other than zero, \<^verbatim>\<open>calculateConfidence\<close>
  is High when the coefficient of variation (standard deviation over mean, unweighted) is
  below 0.2, Medium when it is at least 0.2 and below 0.4, and Low otherwise; when the mean
  is 0 the result is Low (the quotient is \<^verbatim>\<open>NaN\<close> or \<^verbatim>\<open>Infinity\<close> and both
  comparisons are false).
\<close>

theorem calculateConfidence_classes:
  assumes "map value valuations = map Fin xs"
  shows "(xs \<noteq> [] \<and> mean_of xs \<noteq> 0 \<longrightarrow>
            calculateConfidence valuations =
              (if coefficient_of_variation xs < 0.2 then ''High''
               else if coefficient_of_variation xs < 0.4 then ''Medium''
               else ''Low''))
       \<and> (mean_of xs = 0 \<longrightarrow> calculateConfidence valuations = ''Low'')"
proof (intro conjI impI)
  assume a: "xs \<noteq> [] \<and> mean_of xs \<noteq> 0"
  then show "calculateConfidence valuations =
              (if coefficient_of_variation xs < 0.2 then ''High''
               else if coefficient_of_variation xs < 0.4 then ''Medium''
               else ''Low'')"
    using confidence_of_cv [OF assms] by (simp add: Let_def coefficient_of_variation_def)
next
  assume z: "mean_of xs = 0"
  show "calculateConfidence valuations = ''Low''"
  proof (cases "xs = []")
    case True
    then have "valuations = []" using assms by simp
    then show ?thesis by (simp add: calculateConfidence_def divide_jsval_def minus_jsval_def less_jsval_def)
  next
    case False
    have "0 \<le> stddev_of xs"
      unfolding stddev_of_def
      by (intro real_sqrt_ge_zero divide_nonneg_nonneg sum_list_nonneg) auto
    then have "Fin (stddev_of xs) / Fin 0 = NaN \<or> Fin (stddev_of xs) / Fin 0 = PosInf"
      by (auto simp: div_by_zero)
    then show ?thesis
      using confidence_of_cv [OF assms False] z
      by (auto simp: Let_def less_jsval_def)
  qed
qed

lemma sqrt_squares: "sqrt 9 = 3" "sqrt 25 = 5"
  using real_sqrt_abs [of 3] real_sqrt_abs [of 5] by simp_all

text \<open>
  Values with coefficient of variation 0.1, 0.3 and 0.5, and values of mean zero.
\<close>

theorem calculateConfidence_classes_witness:
  "calculateConfidence [entry 9, entry 11] = ''High''
   \<and> calculateConfidence [entry 7, entry 13] = ''Medium''
   \<and> calculateConfidence [entry 5, entry 15] = ''Low''
   \<and> calculateConfidence [entry (- 1), entry 1] = ''Low''"
  using calculateConfidence_classes [of "[entry 9, entry 11]" "[9, 11]"]
    calculateConfidence_classes [of "[entry 7, entry 13]" "[7, 13]"]
    calculateConfidence_classes [of "[entry 5, entry 15]" "[5, 15]"]
    calculateConfidence_classes [of "[entry (- 1), entry 1]" "[- 1, 1]"]
  by (simp add: entry_def mean_of_def stddev_of_def coefficient_of_variation_def
      sqrt_squares power2_eq_square)

section \<open>The weights are finite and their sum is positive\<close>

lemma finAbove_Fin: "finAbove l (Fin x) = (l \<le> x)"
  by (simp add: finAbove_def)

lemma characteristicWeights_bounds:
  "weightsAbove (- 0.025) 0.075 0.10 0.15 0.10 0.05 0.05 (characteristicWeights d ind)"
  by (simp add: characteristicWeights_def dividendAdjustment_def betaAdjustment_def
      debtAdjustment_def sizeAdjustment_def industryAdjustment_def baseWeights_def
      weightsAbove_def finAbove_Fin)

lemma characteristicWeights_total:
  "totalWeight (characteristicWeights d ind) = Fin 1"
  by (simp add: characteristicWeights_def dividendAdjustment_def betaAdjustment_def
      debtAdjustment_def sizeAdjustment_def industryAdjustment_def baseWeights_def
      totalWeight_def)

lemma extremeCheck_fields:
  "fcfe (extremeCheck f1 f2 dd rel w) =
     (if \<bar>upside f1\<bar> > Fin 100 then fcfe w * Fin 0.5 else fcfe w)"
  "fcff (extremeCheck f1 f2 dd rel w) =
     (if \<bar>upside f2\<bar> > Fin 100 then fcff w * Fin 0.5 else fcff w)"
  "ddm (extremeCheck f1 f2 dd rel w) =
     (if \<bar>upside dd\<bar> > Fin 100 then ddm w * Fin 0.5 else ddm w)"
  "peRelative (extremeCheck f1 f2 dd rel w) =
     (if \<bar>upside (peValuation rel)\<bar> > Fin 100 then peRelative w * Fin 0.5 else peRelative w)"
  "evEbitda (extremeCheck f1 f2 dd rel w) =
     (if \<bar>upside (evEbitdaValuation rel)\<bar> > Fin 100 then evEbitda w * Fin 0.5 else evEbitda w)"
  "weights.bookValue (extremeCheck f1 f2 dd rel w) = weights.bookValue w"
  "weights.capitalizedEarnings (extremeCheck f1 f2 dd rel w) = weights.capitalizedEarnings w"
  by (simp_all add: extremeCheck_def Let_def)

lemma filterCheck_fields:
  "fcfe (filterCheck f1 f2 dd assets w) =
     (if valuePerShare f1 \<le> Fin 0 \<or> \<bar>upside f1\<bar> > Fin 150 \<or> notApplicable f1
      then Fin 0 else fcfe w)"
  "fcff (filterCheck f1 f2 dd assets w) =
     (if valuePerShare f2 \<le> Fin 0 \<or> \<bar>upside f2\<bar> > Fin 150 then Fin 0 else fcff w)"
  "ddm (filterCheck f1 f2 dd assets w) =
     (if valuePerShare dd \<le> Fin 0 \<or> \<bar>upside dd\<bar> > Fin 150 then Fin 0 else ddm w)"
  "peRelative (filterCheck f1 f2 dd assets w) = peRelative w"
  "evEbitda (filterCheck f1 f2 dd assets w) = evEbitda w"
  "weights.bookValue (filterCheck f1 f2 dd assets w) =
     (if valuePerShare (asset_results.bookValue assets) \<le> Fin 0
         \<or> valuePerShare (liquidationValue assets) \<le> Fin 0
      then Fin 0 else weights.bookValue w)"
  "weights.capitalizedEarnings (filterCheck f1 f2 dd assets w) = weights.capitalizedEarnings w"
  by (simp_all add: filterCheck_def Let_def)

lemma assetFloor_fields:
  "fcfe (assetFloor ind assets w) = fcfe w"
  "fcff (assetFloor ind assets w) = fcff w"
  "ddm (assetFloor ind assets w) = ddm w"
  "peRelative (assetFloor ind assets w) = peRelative w"
  "evEbitda (assetFloor ind assets w) = evEbitda w"
  "weights.bookValue (assetFloor ind assets w) =
     (if assetHeavy ind \<and> weights.bookValue w = Fin 0
         \<and> valuePerShare (tangibleBookValue assets) > Fin 0
      then Fin 0.05 else weights.bookValue w)"
  "weights.capitalizedEarnings (assetFloor ind assets w) = weights.capitalizedEarnings w"
  by (simp_all add: assetFloor_def)

lemma finAbove_mono: "finAbove l v \<Longrightarrow> l' \<le> l \<Longrightarrow> finAbove l' v"
  by (auto simp: finAbove_def)

lemma finAbove_half:
  assumes "finAbove l v" "l' \<le> l / 2"
  shows "finAbove l' (v * Fin 0.5)"
proof -
  from assms(1) obtain x where v: "v = Fin x" and x: "l \<le> x"
    unfolding finAbove_def by blast
  have "l' \<le> x * 0.5" using x assms(2) by simp
  then show ?thesis unfolding v by (simp add: finAbove_Fin)
qed

lemma extremeCheck_bounds:
  assumes "weightsAbove (- 0.025) 0.075 0.10 0.15 0.10 0.05 0.05 w"
  shows "weightsAbove (- 0.025) 0 0 0.075 0.05 0.05 0.05 (extremeCheck f1 f2 dd rel w)"
proof -
  from assms have a: "finAbove (- 0.025) (fcfe w)" and b: "finAbove 0.075 (fcff w)"
    and c: "finAbove 0.10 (ddm w)" and d: "finAbove 0.15 (peRelative w)"
    and e: "finAbove 0.10 (evEbitda w)" and f: "finAbove 0.05 (weights.bookValue w)"
    and g: "finAbove 0.05 (weights.capitalizedEarnings w)"
    unfolding weightsAbove_def by simp_all
  have "finAbove (- 0.025) (fcfe w * Fin 0.5)" using a by (rule finAbove_half) simp
  moreover have "finAbove 0 (fcff w * Fin 0.5)" using b by (rule finAbove_half) simp
  moreover have "finAbove 0 (ddm w * Fin 0.5)" using c by (rule finAbove_half) simp
  moreover have "finAbove 0.075 (peRelative w * Fin 0.5)" using d by (rule finAbove_half) simp
  moreover have "finAbove 0.05 (evEbitda w * Fin 0.5)" using e by (rule finAbove_half) simp
  moreover have "finAbove 0 (fcff w)" using b by (rule finAbove_mono) simp
  moreover have "finAbove 0 (ddm w)" using c by (rule finAbove_mono) simp
  moreover have "finAbove 0.075 (peRelative w)" using d by (rule finAbove_mono) simp
  moreover have "finAbove 0.05 (evEbitda w)" using e by (rule finAbove_mono) simp
  ultimately show ?thesis
    using a f g unfolding weightsAbove_def extremeCheck_fields by simp
qed

lemma filterCheck_bounds:
  assumes "weightsAbove (- 0.025) 0 0 0.075 0.05 0.05 0.05 w"
  shows "weightsAbove (- 0.025) 0 0 0.075 0.05 0 0.05 (filterCheck f1 f2 dd assets w)"
proof -
  have "finAbove 0 (weights.bookValue w)"
    using assms unfolding weightsAbove_def by (auto intro: finAbove_mono)
  then show ?thesis
    using assms unfolding weightsAbove_def filterCheck_fields by (simp add: finAbove_Fin)
qed

lemma assetFloor_bounds:
  assumes "weightsAbove (- 0.025) 0 0 0.075 0.05 0 0.05 w"
  shows "weightsAbove (- 0.025) 0 0 0.075 0.05 0 0.05 (assetFloor ind assets w)"
  using assms unfolding weightsAbove_def assetFloor_fields by (simp add: finAbove_Fin)

lemma adjustedWeights_stages:
  "adjustedWeights d ind f1 f2 dd rel assets =
     assetFloor ind assets (filterCheck f1 f2 dd assets
       (extremeCheck f1 f2 dd rel (characteristicWeights d ind)))"
  by (simp add: adjustedWeights_def characteristicWeights_def Let_def)

lemma adjustedWeights_bounds:
  "weightsAbove (- 0.025) 0 0 0.075 0.05 0 0.05 (adjustedWeights d ind f1 f2 dd rel assets)"
  unfolding adjustedWeights_stages
  by (intro assetFloor_bounds filterCheck_bounds extremeCheck_bounds characteristicWeights_bounds)

lemma normalize_total:
  assumes "weightsAbove (- 0.025) 0 0 0.075 0.05 0 0.05 w"
  shows "\<exists>t. totalWeight w = Fin t \<and> 0.15 \<le> t \<and> totalWeight (normalizeWeights w) = Fin 1"
proof -
  from assms obtain a b c d e f g where
    w: "fcfe w = Fin a" "fcff w = Fin b" "ddm w = Fin c" "peRelative w = Fin d"
       "evEbitda w = Fin e" "weights.bookValue w = Fin f" "weights.capitalizedEarnings w = Fin g"
    and b: "- 0.025 \<le> a" "0 \<le> b" "0 \<le> c" "0.075 \<le> d" "0.05 \<le> e" "0 \<le> f" "0.05 \<le> g"
    unfolding weightsAbove_def finAbove_def by blast
  define t where "t = a + b + c + d + e + f + g"
  have t: "0.15 \<le> t" unfolding t_def using b by (simp; linarith)
  then have t0: "t \<noteq> 0" by (simp; linarith)
  have tw: "totalWeight w = Fin t" by (simp add: w totalWeight_def t_def)
  have "totalWeight (normalizeWeights w)
          = Fin (a / t + b / t + c / t + d / t + e / t + f / t + g / t)"
    unfolding normalizeWeights_def tw Let_def using t0 by (simp add: w totalWeight_def)
  also have "a / t + b / t + c / t + d / t + e / t + f / t + g / t
               = (a + b + c + d + e + f + g) / t"
    by (simp add: add_divide_distrib)
  also have "\<dots> = 1" using t0 by (simp add: t_def [symmetric])
  finally show ?thesis using tw t by blast
qed

section \<open>The returned weights sum to one\<close>

lemma calculateDynamicWeights_no_industry:
  "industry (data this) = None \<Longrightarrow>
     calculateDynamicWeights this f1 f2 dd rel assets earnings = Inl TypeError"
  by (simp add: calculateDynamicWeights_def)

lemma finAboveE:
  assumes "finAbove l v"
  obtains x where "v = Fin x" "l \<le> x"
  using assms unfolding finAbove_def by blast

text \<open>
  C2. For every input of a record that has an industry, the weights before the
  normalization are finite, the P/E weight among them is at least 0.075, so that a method
  with a positive weight always remains, and their sum is at least 0.15; the returned weights
  sum to 1 (exactly, in real arithmetic, so within any tolerance). The sum is therefore
  never zero: the weights of P/E, EV/EBITDA and capitalized earnings are never set to zero,
  and the case of a weight set with every method excluded, for which a failure is asked,
  arises for no input.
\<close>

theorem dynamic_weights_sum_to_one:
  assumes "industry (data this) = Some ind"
  shows "\<exists>p t w. peRelative (adjustedWeights (data this) ind f1 f2 dd rel assets) = Fin p
           \<and> 0.075 \<le> p
           \<and> totalWeight (adjustedWeights (data this) ind f1 f2 dd rel assets) = Fin t
           \<and> 0.15 \<le> t
           \<and> calculateDynamicWeights this f1 f2 dd rel assets earnings = Inr w
           \<and> totalWeight w = Fin 1"
proof -
  let ?a = "adjustedWeights (data this) ind f1 f2 dd rel assets"
  have b: "weightsAbove (- 0.025) 0 0 0.075 0.05 0 0.05 ?a" by (rule adjustedWeights_bounds)
  then have "finAbove 0.075 (peRelative ?a)" by (simp add: weightsAbove_def)
  then obtain p where "peRelative ?a = Fin p" "0.075 \<le> p" by (rule finAboveE)
  moreover from normalize_total [OF b] obtain t where
    "totalWeight ?a = Fin t" "0.15 \<le> t" "totalWeight (normalizeWeights ?a) = Fin 1"
    by blast
  moreover have "calculateDynamicWeights this f1 f2 dd rel assets earnings
                   = Inr (normalizeWeights ?a)"
    using assms by (simp add: calculateDynamicWeights_def)
  ultimately show ?thesis by blast
qed

text \<open>
  A software company with an extreme EV/EBITDA value and a negative liquidation value.
\<close>

theorem dynamic_weights_sum_to_one_witness:
  "\<exists>p t w. peRelative (adjustedWeights softwareData ''Software'' (resultOf 110 10)
             (resultOf 110 10) (resultOf 110 10) extremeRelative negativeLiquidation) = Fin p
         \<and> 0.075 \<le> p
         \<and> totalWeight (adjustedWeights softwareData ''Software'' (resultOf 110 10)
             (resultOf 110 10) (resultOf 110 10) extremeRelative negativeLiquidation) = Fin t
         \<and> 0.15 \<le> t
         \<and> calculateDynamicWeights \<lparr> data = softwareData, normalizedData = softwareData \<rparr>
             (resultOf 110 10) (resultOf 110 10) (resultOf 110 10) extremeRelative
             negativeLiquidation someEarnings = Inr w
         \<and> totalWeight w = Fin 1"
  using dynamic_weights_sum_to_one
    [of "\<lparr> data = softwareData, normalizedData = softwareData \<rparr>" "''Software''"
        "resultOf 110 10" "resultOf 110 10" "resultOf 110 10" extremeRelative
        negativeLiquidation someEarnings]
  by (simp add: softwareData_def)

section \<open>The quality checks, method by method\<close>

lemma adjustedWeights_fields:
  "fcfe (adjustedWeights d ind f1 f2 dd rel assets) =
     (if valuePerShare f1 \<le> Fin 0 \<or> \<bar>upside f1\<bar> > Fin 150 \<or> notApplicable f1 then Fin 0
      else if \<bar>upside f1\<bar> > Fin 100 then fcfe (characteristicWeights d ind) * Fin 0.5
      else fcfe (characteristicWeights d ind))"
  "fcff (adjustedWeights d ind f1 f2 dd rel assets) =
     (if valuePerShare f2 \<le> Fin 0 \<or> \<bar>upside f2\<bar> > Fin 150 then Fin 0
      else if \<bar>upside f2\<bar> > Fin 100 then fcff (characteristicWeights d ind) * Fin 0.5
      else fcff (characteristicWeights d ind))"
  "ddm (adjustedWeights d ind f1 f2 dd rel assets) =
     (if valuePerShare dd \<le> Fin 0 \<or> \<bar>upside dd\<bar> > Fin 150 then Fin 0
      else if \<bar>upside dd\<bar> > Fin 100 then ddm (characteristicWeights d ind) * Fin 0.5
      else ddm (characteristicWeights d ind))"
  "peRelative (adjustedWeights d ind f1 f2 dd rel assets) =
     (if \<bar>upside (peValuation rel)\<bar> > Fin 100
      then peRelative (characteristicWeights d ind) * Fin 0.5
      else peRelative (characteristicWeights d ind))"
  "evEbitda (adjustedWeights d ind f1 f2 dd rel assets) =
     (if \<bar>upside (evEbitdaValuation rel)\<bar> > Fin 100
      then evEbitda (characteristicWeights d ind) * Fin 0.5
      else evEbitda (characteristicWeights d ind))"
  "weights.capitalizedEarnings (adjustedWeights d ind f1 f2 dd rel assets) =
     weights.capitalizedEarnings (characteristicWeights d ind)"
  by (simp_all add: adjustedWeights_stages assetFloor_fields filterCheck_fields
      extremeCheck_fields)

lemma characteristic_bookValue:
  "weights.bookValue (characteristicWeights d ind) = (if assetHeavy ind then Fin 0.10 else Fin 0.05)"
  by (simp add: characteristicWeights_def dividendAdjustment_def betaAdjustment_def
      debtAdjustment_def sizeAdjustment_def industryAdjustment_def baseWeights_def)

lemma adjustedWeights_bookValue:
  "weights.bookValue (adjustedWeights d ind f1 f2 dd rel assets) =
     (if valuePerShare (asset_results.bookValue assets) \<le> Fin 0
         \<or> valuePerShare (liquidationValue assets) \<le> Fin 0
      then (if assetHeavy ind \<and> valuePerShare (tangibleBookValue assets) > Fin 0
            then Fin 0.05 else Fin 0)
      else if assetHeavy ind then Fin 0.10 else Fin 0.05)"
  by (simp add: adjustedWeights_stages assetFloor_fields filterCheck_fields
      extremeCheck_fields characteristic_bookValue)

lemma normalizeWeights_fields:
  "fcfe (normalizeWeights w) = fcfe w / totalWeight w"
  "fcff (normalizeWeights w) = fcff w / totalWeight w"
  "ddm (normalizeWeights w) = ddm w / totalWeight w"
  "peRelative (normalizeWeights w) = peRelative w / totalWeight w"
  "evEbitda (normalizeWeights w) = evEbitda w / totalWeight w"
  "weights.bookValue (normalizeWeights w) = weights.bookValue w / totalWeight w"
  "weights.capitalizedEarnings (normalizeWeights w) = weights.capitalizedEarnings w / totalWeight w"
  by (simp_all add: normalizeWeights_def Let_def)

lemma normalized_positive:
  assumes "finAbove l v" "0 < l" "0 < t"
  shows "\<exists>x. v / Fin t = Fin x \<and> 0 < x"
proof -
  from assms(1) obtain y where "v = Fin y" "l \<le> y" by (rule finAboveE)
  then show ?thesis using assms(2,3) by simp
qed

text \<open>
  C5 (as amended). In \<^verbatim>\<open>calculateDynamicWeights\<close> the quality checks treat the methods
  differently. Starting from the weights after the adjustments for industry, size, debt,
  beta and dividend yield, and before the normalization: the weight is halved on an
  absolute upside above 100 for FCFE, FCFF, DDM, P/E and EV/EBITDA only. It is set to zero
  for FCFE on a non-positive value, an absolute upside above 150 or a not-applicable flag,
  and for FCFF and DDM on a non-positive value or an absolute upside above 150. The
  book-value weight is set to zero when the book value per share or the liquidation value
  per share is non-positive, except that for an asset-heavy industry with a positive
  tangible book value per share it is then 0.05. The P/E and EV/EBITDA weights are at most
  halved and the capitalized-earnings weight is unchanged. The returned weights are these
  divided by their sum, which is positive, and the returned weights of P/E, EV/EBITDA and
  capitalized earnings are positive for every input.
\<close>

theorem dynamic_weights_per_method:
  assumes "industry (data this) = Some ind"
  shows "\<exists>t w p e g.
     fcfe (adjustedWeights (data this) ind f1 f2 dd rel assets) =
       (if valuePerShare f1 \<le> Fin 0 \<or> \<bar>upside f1\<bar> > Fin 150 \<or> notApplicable f1 then Fin 0
        else if \<bar>upside f1\<bar> > Fin 100 then fcfe (characteristicWeights (data this) ind) * Fin 0.5
        else fcfe (characteristicWeights (data this) ind))
     \<and> fcff (adjustedWeights (data this) ind f1 f2 dd rel assets) =
       (if valuePerShare f2 \<le> Fin 0 \<or> \<bar>upside f2\<bar> > Fin 150 then Fin 0
        else if \<bar>upside f2\<bar> > Fin 100 then fcff (characteristicWeights (data this) ind) * Fin 0.5
        else fcff (characteristicWeights (data this) ind))
     \<and> ddm (adjustedWeights (data this) ind f1 f2 dd rel assets) =
       (if valuePerShare dd \<le> Fin 0 \<or> \<bar>upside dd\<bar> > Fin 150 then Fin 0
        else if \<bar>upside dd\<bar> > Fin 100 then ddm (characteristicWeights (data this) ind) * Fin 0.5
        else ddm (characteristicWeights (data this) ind))
     \<and> peRelative (adjustedWeights (data this) ind f1 f2 dd rel assets) =
       (if \<bar>upside (peValuation rel)\<bar> > Fin 100
        then peRelative (characteristicWeights (data this) ind) * Fin 0.5
        else peRelative (characteristicWeights (data this) ind))
     \<and> evEbitda (adjustedWeights (data this) ind f1 f2 dd rel assets) =
       (if \<bar>upside (evEbitdaValuation rel)\<bar> > Fin 100
        then evEbitda (characteristicWeights (data this) ind) * Fin 0.5
        else evEbitda (characteristicWeights (data this) ind))
     \<and> weights.bookValue (adjustedWeights (data this) ind f1 f2 dd rel assets) =
       (if valuePerShare (asset_results.bookValue assets) \<le> Fin 0
           \<or> valuePerShare (liquidationValue assets) \<le> Fin 0
        then (if assetHeavy ind \<and> valuePerShare (tangibleBookValue assets) > Fin 0
              then Fin 0.05 else Fin 0)
        else weights.bookValue (characteristicWeights (data this) ind))
     \<and> weights.capitalizedEarnings (adjustedWeights (data this) ind f1 f2 dd rel assets) =
       weights.capitalizedEarnings (characteristicWeights (data this) ind)
     \<and> totalWeight (adjustedWeights (data this) ind f1 f2 dd rel assets) = Fin t \<and> 0 < t
     \<and> calculateDynamicWeights this f1 f2 dd rel assets earnings = Inr w
     \<and> fcfe w = fcfe (adjustedWeights (data this) ind f1 f2 dd rel assets) / Fin t
     \<and> fcff w = fcff (adjustedWeights (data this) ind f1 f2 dd rel assets) / Fin t
     \<and> ddm w = ddm (adjustedWeights (data this) ind f1 f2 dd rel assets) / Fin t
     \<and> peRelative w = peRelative (adjustedWeights (data this) ind f1 f2 dd rel assets) / Fin t
     \<and> evEbitda w = evEbitda (adjustedWeights (data this) ind f1 f2 dd rel assets) / Fin t
     \<and> weights.bookValue w =
         weights.bookValue (adjustedWeights (data this) ind f1 f2 dd rel assets) / Fin t
     \<and> weights.capitalizedEarnings w =
         weights.capitalizedEarnings (adjustedWeights (data this) ind f1 f2 dd rel assets) / Fin t
     \<and> peRelative w = Fin p \<and> 0 < p \<and> evEbitda w = Fin e \<and> 0 < e
     \<and> weights.capitalizedEarnings w = Fin g \<and> 0 < g"
proof -
  let ?a = "adjustedWeights (data this) ind f1 f2 dd rel assets"
  have b: "weightsAbove (- 0.025) 0 0 0.075 0.05 0 0.05 ?a" by (rule adjustedWeights_bounds)
  from normalize_total [OF b] obtain t where t: "totalWeight ?a = Fin t" "0.15 \<le> t"
    by blast
  then have t0: "0 < t" by (simp; linarith)
  have w: "calculateDynamicWeights this f1 f2 dd rel assets earnings = Inr (normalizeWeights ?a)"
    using assms by (simp add: calculateDynamicWeights_def)
  have "finAbove 0.075 (peRelative ?a)" "finAbove 0.05 (evEbitda ?a)"
    "finAbove 0.05 (weights.capitalizedEarnings ?a)"
    using b by (simp_all add: weightsAbove_def)
  then obtain p e g where
    "peRelative ?a / Fin t = Fin p" "0 < p" "evEbitda ?a / Fin t = Fin e" "0 < e"
    "weights.capitalizedEarnings ?a / Fin t = Fin g" "0 < g"
    using normalized_positive [OF _ _ t0, of "0.075" "peRelative ?a"]
      normalized_positive [OF _ _ t0, of "0.05" "evEbitda ?a"]
      normalized_positive [OF _ _ t0, of "0.05" "weights.capitalizedEarnings ?a"]
    by auto
  moreover have "weights.bookValue ?a =
       (if valuePerShare (asset_results.bookValue assets) \<le> Fin 0
           \<or> valuePerShare (liquidationValue assets) \<le> Fin 0
        then (if assetHeavy ind \<and> valuePerShare (tangibleBookValue assets) > Fin 0
              then Fin 0.05 else Fin 0)
        else weights.bookValue (characteristicWeights (data this) ind))"
    by (simp add: adjustedWeights_bookValue characteristic_bookValue)
  ultimately show ?thesis
    using t(1) t0 w
    by (intro exI [of _ t] exI [of _ "normalizeWeights ?a"] exI [of _ p] exI [of _ e]
        exI [of _ g]) (simp add: adjustedWeights_fields normalizeWeights_fields)
qed

text \<open>
  A heavy-machinery company with an FCFE upside of 120, a DDM upside of 160, an EV/EBITDA
  upside of 200, and a negative liquidation value with a positive tangible book value.
\<close>

theorem dynamic_weights_per_method_witness:
  "\<exists>t w p e g.
     fcfe (adjustedWeights industrialData ''Farm & Heavy Construction Machinery''
             (resultOf 220 120) (resultOf 110 10) (resultOf 260 160) extremeRelative
             negativeLiquidation) = Fin 0.10
     \<and> ddm (adjustedWeights industrialData ''Farm & Heavy Construction Machinery''
             (resultOf 220 120) (resultOf 110 10) (resultOf 260 160) extremeRelative
             negativeLiquidation) = Fin 0
     \<and> evEbitda (adjustedWeights industrialData ''Farm & Heavy Construction Machinery''
             (resultOf 220 120) (resultOf 110 10) (resultOf 260 160) extremeRelative
             negativeLiquidation) = Fin 0.075
     \<and> weights.bookValue (adjustedWeights industrialData ''Farm & Heavy Construction Machinery''
             (resultOf 220 120) (resultOf 110 10) (resultOf 260 160) extremeRelative
             negativeLiquidation) = Fin 0.05
     \<and> totalWeight (adjustedWeights industrialData ''Farm & Heavy Construction Machinery''
             (resultOf 220 120) (resultOf 110 10) (resultOf 260 160) extremeRelative
             negativeLiquidation) = Fin t \<and> 0 < t
     \<and> calculateDynamicWeights \<lparr> data = industrialData, normalizedData = industrialData \<rparr>
          (resultOf 220 120) (resultOf 110 10) (resultOf 260 160) extremeRelative
          negativeLiquidation someEarnings = Inr w
     \<and> peRelative w = Fin p \<and> 0 < p \<and> evEbitda w = Fin e \<and> 0 < e
     \<and> weights.capitalizedEarnings w = Fin g \<and> 0 < g"
proof -
  have h: "assetHeavy ''Farm & Heavy Construction Machinery''"
    by (simp add: assetHeavy_def)
  have c: "characteristicWeights industrialData ''Farm & Heavy Construction Machinery'' =
             \<lparr> fcfe = Fin 0.20, fcff = Fin 0.20, ddm = Fin 0.10, peRelative = Fin 0.20,
               evEbitda = Fin 0.15, weights.bookValue = Fin 0.10,
               weights.capitalizedEarnings = Fin 0.05 \<rparr>"
    by (simp add: characteristicWeights_def industrialData_def mockData_def dividendYieldOf_def
        dividendAdjustment_def betaAdjustment_def debtAdjustment_def sizeAdjustment_def
        industryAdjustment_def h baseWeights_def)
  have i: "industry (data \<lparr> data = industrialData, normalizedData = industrialData \<rparr>)
             = Some ''Farm & Heavy Construction Machinery''"
    by (simp add: industrialData_def)
  have d: "data \<lparr> data = industrialData, normalizedData = industrialData \<rparr> = industrialData"
    by simp
  show ?thesis
    using dynamic_weights_per_method
      [OF i, of "resultOf 220 120" "resultOf 110 10" "resultOf 260 160" extremeRelative
          negativeLiquidation someEarnings]
    unfolding d c
    apply (simp add: h resultOf_def negativeLiquidation_def positiveAssets_def
        extremeRelative_def moderateRelative_def)
    apply blast
    done
qed

text \<open>
  C5 as stated fails for EV/EBITDA: with an absolute upside above 150 its weight is halved,
  not set to zero, and the returned weight is 0.05/0.95.
\<close>

theorem evEbitda_extreme_counterexample:
  "\<bar>upside (evEbitdaValuation extremeRelative)\<bar> > Fin 150
   \<and> evEbitda (adjustedWeights softwareData ''Software'' (resultOf 110 10) (resultOf 110 10)
               (resultOf 110 10) extremeRelative positiveAssets) = Fin 0.05
   \<and> (\<exists>w. calculateDynamicWeights \<lparr> data = softwareData, normalizedData = softwareData \<rparr>
             (resultOf 110 10) (resultOf 110 10) (resultOf 110 10) extremeRelative
             positiveAssets someEarnings = Inr w
          \<and> evEbitda w = Fin (0.05 / 0.95))"
  by (simp add: calculateDynamicWeights_def adjustedWeights_stages characteristicWeights_def
      softwareData_def mockData_def dividendYieldOf_def dividendAdjustment_def betaAdjustment_def
      debtAdjustment_def sizeAdjustment_def industryAdjustment_def assetHeavy_def
      baseWeights_def normalizeWeights_def totalWeight_def assetFloor_fields
      filterCheck_fields extremeCheck_fields resultOf_def extremeRelative_def
      moderateRelative_def positiveAssets_def)

section \<open>A non-positive liquidation value zeroes the book-value weight\<close>

lemma adjusted_bookValue_zero:
  assumes "valuePerShare (liquidationValue assets) \<le> Fin 0"
    and "\<not> (assetHeavy ind \<and> valuePerShare (tangibleBookValue assets) > Fin 0)"
  shows "weights.bookValue (adjustedWeights d ind f1 f2 dd rel assets) = Fin 0"
  using assms by (auto simp: adjustedWeights_stages assetFloor_fields filterCheck_fields)

lemma normalize_bookValue_zero:
  assumes "weightsAbove (- 0.025) 0 0 0.075 0.05 0 0.05 w" "weights.bookValue w = Fin 0"
  shows "weights.bookValue (normalizeWeights w) = Fin 0"
proof -
  from normalize_total [OF assms(1)] obtain t where "totalWeight w = Fin t" "0.15 \<le> t"
    by blast
  then have "totalWeight w = Fin t" "t \<noteq> 0" by (simp; linarith)+
  then show ?thesis by (simp add: normalizeWeights_def Let_def assms(2))
qed

text \<open>
  C10. When the liquidation value per share is non-positive, the book-value weight after the
  filter of lines 433 to 438 is zero, whatever the book value per share is; there is no weight
  for the liquidation value itself (the weight set has the seven keys of \<open>weights\<close>). Unless
  the asset floor applies (an asset-heavy industry with a positive tangible book value), the
  returned book-value weight is zero as well.
\<close>

theorem liquidation_zeroes_bookValue:
  assumes "valuePerShare (liquidationValue assets) \<le> Fin 0"
  shows "weights.bookValue (filterCheck f1 f2 dd assets w) = Fin 0
       \<and> (industry (data this) = Some ind
            \<and> \<not> (assetHeavy ind \<and> valuePerShare (tangibleBookValue assets) > Fin 0)
          \<longrightarrow> (\<exists>w'. calculateDynamicWeights this f1 f2 dd rel assets earnings = Inr w'
                     \<and> weights.bookValue w' = Fin 0))"
proof (intro conjI impI)
  show "weights.bookValue (filterCheck f1 f2 dd assets w) = Fin 0"
    using assms by (simp add: filterCheck_fields)
next
  assume a: "industry (data this) = Some ind
            \<and> \<not> (assetHeavy ind \<and> valuePerShare (tangibleBookValue assets) > Fin 0)"
  then have "weights.bookValue (adjustedWeights (data this) ind f1 f2 dd rel assets) = Fin 0"
    using assms by (intro adjusted_bookValue_zero) auto
  then have "weights.bookValue
               (normalizeWeights (adjustedWeights (data this) ind f1 f2 dd rel assets)) = Fin 0"
    by (intro normalize_bookValue_zero adjustedWeights_bounds)
  with a show "\<exists>w'. calculateDynamicWeights this f1 f2 dd rel assets earnings = Inr w'
                     \<and> weights.bookValue w' = Fin 0"
    by (simp add: calculateDynamicWeights_def)
qed

text \<open>A book value per share of 8 with a liquidation value per share of -2.5.\<close>

theorem liquidation_zeroes_bookValue_witness:
  "Fin 0 < valuePerShare (asset_results.bookValue negativeLiquidation)
   \<and> weights.bookValue (filterCheck (resultOf 110 10) (resultOf 110 10) (resultOf 110 10)
        negativeLiquidation baseWeights) = Fin 0
   \<and> (\<exists>w'. calculateDynamicWeights \<lparr> data = softwareData, normalizedData = softwareData \<rparr>
              (resultOf 110 10) (resultOf 110 10) (resultOf 110 10) moderateRelative
              negativeLiquidation someEarnings = Inr w'
           \<and> weights.bookValue w' = Fin 0)"
  using liquidation_zeroes_bookValue
    [of negativeLiquidation "resultOf 110 10" "resultOf 110 10" "resultOf 110 10" baseWeights
        "\<lparr> data = softwareData, normalizedData = softwareData \<rparr>" "''Software''"
        moderateRelative someEarnings]
  by (simp add: negativeLiquidation_def positiveAssets_def resultOf_def softwareData_def
      assetHeavy_def)

section \<open>Currency conversion of a year\<close>

lemma convertField_other: "g \<noteq> f \<Longrightarrow> convertField rate yd g f = yd f"
  by (simp add: convertField_def)

lemma foldl_convertField_notin:
  "f \<notin> set fs \<Longrightarrow> foldl (convertField rate) yd fs f = yd f"
  by (induction fs arbitrary: yd) (auto simp: convertField_other)

lemma foldl_convertField_in:
  "distinct fs \<Longrightarrow> f \<in> set fs \<Longrightarrow>
     foldl (convertField rate) yd fs f =
       (if yd f \<noteq> Undefined \<and> yd f \<noteq> Null then yd f * rate else yd f)"
proof (induction fs arbitrary: yd)
  case Nil
  then show ?case by simp
next
  case (Cons g fs)
  show ?case
  proof (cases "g = f")
    case True
    then have "f \<notin> set fs" using Cons.prems by simp
    then show ?thesis using True
      by (simp add: foldl_convertField_notin) (simp add: convertField_def)
  next
    case False
    then show ?thesis using Cons by (simp add: convertField_other)
  qed
qed

lemma convertPerShare_other: "g \<noteq> f \<Longrightarrow> convertPerShare rate yd g f = yd f"
  by (simp add: convertPerShare_def)

lemma distinct_monetaryFields: "distinct monetaryFields"
  by (simp add: monetaryFields_def)

lemma perShare_not_monetary:
  "''bookValuePerShare'' \<notin> set monetaryFields" "''eps'' \<notin> set monetaryFields"
  "''dividend'' \<notin> set monetaryFields"
  by (simp_all add: monetaryFields_def)

lemma convertYear_monetary:
  assumes "f \<in> set monetaryFields"
  shows "convertYear rate yd f =
           (if yd f \<noteq> Undefined \<and> yd f \<noteq> Null then yd f * rate else yd f)"
proof -
  have "f \<noteq> ''bookValuePerShare''" "f \<noteq> ''eps''" "f \<noteq> ''dividend''"
    using assms perShare_not_monetary by auto
  then show ?thesis
    by (simp add: convertYear_def Let_def convertPerShare_other
        foldl_convertField_in [OF distinct_monetaryFields assms])
qed

lemma convertYear_dividend:
  "convertYear rate yd ''dividend'' =
     (if truthy (yd ''dividend'') then yd ''dividend'' * rate else yd ''dividend'')"
  by (simp add: convertYear_def Let_def convertPerShare_def
      foldl_convertField_notin [OF perShare_not_monetary(3)])

section \<open>Records in USD, and the copy of a foreign record\<close>

text \<open>
  A record in a currency other than USD and DKK is copied and not converted, whatever its
  exchange-rate table holds.
\<close>

lemma convertToUSD_other_currency:
  assumes "r < length h" "currency (h ! r) = Some c"
    "c \<noteq> []" "c \<noteq> ''USD''" "c \<noteq> ''DKK''"
  shows "convertToUSD h r = Inr (h @ [json_copy (h ! r)], length h)"
  using assms by (simp add: convertToUSD_def alloc_def Let_def split: option.split)

text \<open>
  The test record in EUR with the table of rates for DKK: the copy has the same revenue and
  is still labelled EUR.
\<close>

lemma convertToUSD_eur_example:
  "convertToUSD [eurData] 0 = Inr ([eurData, json_copy eurData], 1)
   \<and> currency (json_copy eurData) = Some ''EUR''
   \<and> map_of (financialHistory (json_copy eurData)) ''2024'' = Some (json_val \<circ> mockYear)
   \<and> (json_val \<circ> mockYear) ''revenue'' = Fin 1000000000"
  using convertToUSD_other_currency [of 0 "[eurData]" "''EUR''"]
  by (simp add: eurData_def json_copy_def mockData_def mockYear_def)

text \<open>The constructor on a record in USD: both references are the record given.\<close>

lemma new_ValuationCalculator_usd:
  assumes "r < length h" "currency (h ! r) \<in> {None, Some [], Some ''USD''}"
  shows "new_ValuationCalculator h r = Inr (h, \<lparr> dataRef = r, normalizedDataRef = r \<rparr>)
       \<and> deref h \<lparr> dataRef = r, normalizedDataRef = r \<rparr>
           = \<lparr> data = h ! r, normalizedData = h ! r \<rparr>"
  using assms by (auto simp: new_ValuationCalculator_def convertToUSD_def deref_def)

text \<open>
  C9. A record in USD (or with no currency) is returned as it is: the same reference, in
  the same store, so normalizing a normalized record does nothing. For a record in another
  currency the result is a new object: every object of the store before the call,
  the input record among them, is unchanged after it, and the converted values are in the
  new object only. The result of converting a DKK record is labelled USD, so that
  normalizing it again returns it as it is.
\<close>

theorem convertToUSD_identity_and_fresh_copy:
  assumes "r < length h"
  shows "(currency (h ! r) \<in> {None, Some [], Some ''USD''}
            \<longrightarrow> convertToUSD h r = Inr (h, r))
       \<and> (currency (h ! r) \<notin> {None, Some [], Some ''USD''}
            \<longrightarrow> (\<exists>h' n. convertToUSD h r = Inr (h', n) \<and> n = length h
                   \<and> length h' = Suc (length h) \<and> take (length h) h' = h
                   \<and> h' ! r = h ! r))
       \<and> (currency (h ! r) = Some ''DKK'' \<and> exchangeRate (h ! r) \<noteq> None
            \<longrightarrow> (\<exists>h' n. convertToUSD h r = Inr (h', n)
                   \<and> currency (h' ! n) = Some ''USD''
                   \<and> convertToUSD h' n = Inr (h', n)))"
proof (intro conjI impI)
  assume "currency (h ! r) \<in> {None, Some [], Some ''USD''}"
  then show "convertToUSD h r = Inr (h, r)"
    using assms by (auto simp: convertToUSD_def)
next
  assume "currency (h ! r) \<notin> {None, Some [], Some ''USD''}"
  then show "\<exists>h' n. convertToUSD h r = Inr (h', n) \<and> n = length h
                   \<and> length h' = Suc (length h) \<and> take (length h) h' = h
                   \<and> h' ! r = h ! r"
    using assms
    by (auto simp: convertToUSD_def alloc_def Let_def nth_append split: option.split)
next
  assume a: "currency (h ! r) = Some ''DKK'' \<and> exchangeRate (h ! r) \<noteq> None"
  then obtain table where t: "exchangeRate (h ! r) = Some table" by auto
  let ?c = "convertDKK (h ! r) table (json_copy (h ! r))"
  let ?h = "h @ [?c]"
  have 1: "convertToUSD h r = Inr (?h, length h)"
    using assms a t by (simp add: convertToUSD_def alloc_def Let_def)
  have 2: "currency (?h ! length h) = Some ''USD''"
    by (simp add: convertDKK_def Let_def split: option.split)
  then have 3: "convertToUSD ?h (length h) = Inr (?h, length h)"
    by (simp add: convertToUSD_def)
  show "\<exists>h' n. convertToUSD h r = Inr (h', n) \<and> currency (h' ! n) = Some ''USD''
                   \<and> convertToUSD h' n = Inr (h', n)"
    using 1 2 3 by blast
qed

text \<open>A store holding one USD record, and a store holding one DKK record.\<close>

theorem convertToUSD_identity_and_fresh_copy_witness:
  "convertToUSD [usdData] 0 = Inr ([usdData], 0)
   \<and> (\<exists>h' n. convertToUSD [dkkData] 0 = Inr (h', n) \<and> n = 1 \<and> length h' = 2
          \<and> take 1 h' = [dkkData] \<and> h' ! 0 = dkkData
          \<and> currency (h' ! n) = Some ''USD'' \<and> convertToUSD h' n = Inr (h', n))"
proof -
  have u: "currency ([usdData] ! 0) \<in> {None, Some [], Some ''USD''}"
    by (simp add: usdData_def)
  have d: "currency ([dkkData] ! 0) \<notin> {None, Some [], Some ''USD''}"
    "currency ([dkkData] ! 0) = Some ''DKK'' \<and> exchangeRate ([dkkData] ! 0) \<noteq> None"
    by (simp_all add: dkkData_def)
  show ?thesis
    using convertToUSD_identity_and_fresh_copy [of 0 "[usdData]"]
      convertToUSD_identity_and_fresh_copy [of 0 "[dkkData]"] u d
    by auto
qed

text \<open>
  The DKK record at the rate 0.1449: a revenue of 1000000000 and a dividend of 0.5 are
  converted in the copy, and the year of the input record is as before.
\<close>

lemma convertToUSD_dkk_example:
  "\<exists>h' n yd. convertToUSD [dkkData] 0 = Inr (h', n)
     \<and> map_of (financialHistory (h' ! n)) ''2024'' = Some yd
     \<and> yd ''revenue'' = Fin 144900000 \<and> yd ''dividend'' = Fin 0.07245
     \<and> map_of (financialHistory (h' ! 0)) ''2024'' = Some mockYear"
  by (simp add: convertToUSD_def alloc_def dkkData_def dkkTable_def mockData_def json_copy_def
      convertDKK_def Let_def convertYear_monetary convertYear_dividend monetaryFields_def
      mockYear_def)

section \<open>A DKK record whose table has no rate to USD\<close>

text \<open>
  C4. On a DKK record whose exchange-rate table has only the key \<^verbatim>\<open>usdToDkk\<close>, the
  conversion rate read is \<^verbatim>\<open>undefined\<close>: the monetary fields and the dividend of the
  copy are \<^verbatim>\<open>NaN\<close>, and the copy is labelled USD.
\<close>

theorem convertToUSD_missing_rate:
  "\<exists>h' n yd. convertToUSD [dkkNoRateData] 0 = Inr (h', n)
     \<and> currency (h' ! n) = Some ''USD'' \<and> convertedFromCurrency (h' ! n) = Some ''DKK''
     \<and> conversionRate (h' ! n) = Undefined
     \<and> map_of (financialHistory (h' ! n)) ''2024'' = Some yd
     \<and> yd ''revenue'' = NaN \<and> yd ''freeCashFlow'' = NaN \<and> yd ''dividend'' = NaN"
  by (simp add: convertToUSD_def alloc_def dkkNoRateData_def mockData_def json_copy_def
      convertDKK_def Let_def convertYear_monetary convertYear_dividend monetaryFields_def
      mockYear_def times_jsval_def)

section \<open>FCFE on the record given to the constructor\<close>

lemma freeCashFlow_monetary: "''freeCashFlow'' \<in> set monetaryFields"
  by (simp add: monetaryFields_def)

lemma NaN_arith [simp]:
  "NaN + v = NaN" "v + NaN = NaN" "NaN * v = NaN" "v * NaN = NaN"
  "NaN / v = NaN" "v / NaN = NaN" "NaN - v = NaN" "v - NaN = NaN"
  "Undefined * v = NaN" "v * Undefined = NaN"
  by (cases v; simp add: plus_jsval_def times_jsval_def divide_jsval_def minus_jsval_def)+

lemma sortedYears_map:
  "sortedYears (map (\<lambda>(year, yd). (year, g yd)) fh) = sortedYears fh"
  by (simp add: sortedYears_def case_prod_unfold comp_def)

lemma latestYearData_map:
  "latestYearData (map (\<lambda>(year, yd). (year, g yd)) fh) = map_option g (latestYearData fh)"
  by (simp add: latestYearData_def sortedYears_map Let_def map_of_map)

lemma financialHistory_json_copy:
  "financialHistory (json_copy d) =
     map (\<lambda>(year, yd). (year, json_val \<circ> yd)) (financialHistory d)"
  by (simp add: json_copy_def)

lemma financialHistory_convertDKK:
  "financialHistory (convertDKK d table c) =
     map (\<lambda>(year, yd). (year, convertYear (table ''dkkToUsd'') yd)) (financialHistory c)"
  by (simp add: convertDKK_def Let_def split: option.split)

lemma json_val_nonpositive: "v \<le> Fin 0 \<Longrightarrow> json_val v \<le> Fin 0"
  by (cases v) (simp_all add: less_eq_jsval_def)

lemma converted_nonpositive:
  assumes "v \<le> Fin 0" "0 < k"
  shows "(if json_val v \<noteq> Undefined \<and> json_val v \<noteq> Null then json_val v * Fin k
          else json_val v) \<le> Fin 0"
  using assms by (cases v) (simp_all add: less_eq_jsval_def mult_le_0_iff)

text \<open>
  The guard, from the record given to the constructor: when the free cash flow of the
  latest year of the record is non-positive, the result is flagged, provided that the
  normalization keeps its sign. That is so for a record in USD or with no currency (the
  record itself is read), for a record in a currency other than DKK or with no table (the
  copy is read), and for a DKK record whose table has a positive rate \<^verbatim>\<open>dkkToUsd\<close>.
\<close>

lemma calculateFCFE_nonpositive_from_record:
  assumes r: "r < length h"
    and l: "latestYearData (financialHistory (h ! r)) = Some yd"
    and f: "yd ''freeCashFlow'' \<le> Fin 0"
    and k: "currency (h ! r) = Some ''DKK'' \<longrightarrow>
              (case exchangeRate (h ! r) of
                 None \<Rightarrow> True
               | Some table \<Rightarrow> \<exists>k. table ''dkkToUsd'' = Fin k \<and> 0 < k)"
  shows "\<exists>h' refs res. new_ValuationCalculator h r = Inr (h', refs)
           \<and> calculateFCFE toFixed0 (deref h' refs) = Inr res
           \<and> notApplicable res \<and> reason res \<noteq> None
           \<and> valuePerShare res = Fin 0 \<and> totalValue res = Fin 0 \<and> upside res = Fin 0"
proof -
  let ?d = "h ! r"
  have goal: "\<exists>h' refs res. new_ValuationCalculator h r = Inr (h', refs)
           \<and> calculateFCFE toFixed0 (deref h' refs) = Inr res
           \<and> notApplicable res \<and> reason res \<noteq> None
           \<and> valuePerShare res = Fin 0 \<and> totalValue res = Fin 0 \<and> upside res = Fin 0"
    if c: "new_ValuationCalculator h r = Inr (h', refs)"
      and n: "latestYearData (financialHistory (normalizedData (deref h' refs))) = Some yd'"
      and f': "yd' ''freeCashFlow'' \<le> Fin 0" for h' refs yd'
    using calculateFCFE_nonpositive [OF n f', of toFixed0] c by auto
  show ?thesis
  proof (cases "currency ?d = None \<or> currency ?d = Some [] \<or> currency ?d = Some ''USD''")
    case True
    note usd = this
    then have "new_ValuationCalculator h r = Inr (h, \<lparr> dataRef = r, normalizedDataRef = r \<rparr>)"
      using r by (auto simp: new_ValuationCalculator_def convertToUSD_def)
    moreover have "latestYearData (financialHistory (normalizedData
        (deref h \<lparr> dataRef = r, normalizedDataRef = r \<rparr>))) = Some yd"
      using l by (simp add: deref_def)
    ultimately show ?thesis using f by (rule goal)
  next
    case False
    note foreign = this
    show ?thesis
    proof (cases "currency ?d = Some ''DKK'' \<and> exchangeRate ?d \<noteq> None")
    case True
    then obtain table where dkk: "currency ?d = Some ''DKK''" "exchangeRate ?d = Some table"
      by auto
    then obtain k where rate: "table ''dkkToUsd'' = Fin k" "0 < k" using k by auto
    let ?c = "convertDKK ?d table (json_copy ?d)"
    have "new_ValuationCalculator h r
            = Inr (h @ [?c], \<lparr> dataRef = r, normalizedDataRef = length h \<rparr>)"
      using r dkk
      by (simp add: new_ValuationCalculator_def convertToUSD_def alloc_def Let_def)
    moreover have "latestYearData (financialHistory (normalizedData
        (deref (h @ [?c]) \<lparr> dataRef = r, normalizedDataRef = length h \<rparr>)))
          = Some (convertYear (Fin k) (json_val \<circ> yd))"
    proof -
      have "latestYearData (financialHistory ?c)
              = map_option (convertYear (table ''dkkToUsd''))
                  (map_option (\<lambda>yd. json_val \<circ> yd) (latestYearData (financialHistory ?d)))"
        unfolding financialHistory_convertDKK financialHistory_json_copy latestYearData_map ..
      then show ?thesis using l rate by (simp add: deref_def)
    qed
    moreover have "convertYear (Fin k) (json_val \<circ> yd) ''freeCashFlow'' \<le> Fin 0"
      unfolding convertYear_monetary [OF freeCashFlow_monetary] comp_apply
      by (rule converted_nonpositive [OF f rate(2)])
    ultimately show ?thesis by (rule goal)
  next
    case False
    have "new_ValuationCalculator h r
            = Inr (h @ [json_copy ?d], \<lparr> dataRef = r, normalizedDataRef = length h \<rparr>)"
      using r foreign False
      by (auto simp: new_ValuationCalculator_def convertToUSD_def alloc_def Let_def
          split: option.split)
    moreover have "latestYearData (financialHistory (normalizedData
        (deref (h @ [json_copy ?d]) \<lparr> dataRef = r, normalizedDataRef = length h \<rparr>)))
          = Some (json_val \<circ> yd)"
      using l by (simp add: deref_def financialHistory_json_copy latestYearData_map)
    moreover have "(json_val \<circ> yd) ''freeCashFlow'' \<le> Fin 0"
      using json_val_nonpositive [OF f] by simp
    ultimately show ?thesis by (rule goal)
    qed
  qed
qed

text \<open>The DKK record with the rate 0.1449 and a free cash flow of -1.\<close>

lemma calculateFCFE_dkk_negative_example:
  "\<exists>h' refs res. new_ValuationCalculator [dkkNegativeFcfData] 0 = Inr (h', refs)
     \<and> calculateFCFE toFixed0 (deref h' refs) = Inr res
     \<and> notApplicable res \<and> reason res \<noteq> None
     \<and> valuePerShare res = Fin 0 \<and> totalValue res = Fin 0 \<and> upside res = Fin 0"
proof (rule calculateFCFE_nonpositive_from_record
        [of 0 _ "mockYear(''freeCashFlow'' := Fin (- 1))"])
  show "latestYearData (financialHistory ([dkkNegativeFcfData] ! 0))
          = Some (mockYear(''freeCashFlow'' := Fin (- 1)))"
    by (simp add: dkkNegativeFcfData_def latestYearData_def sortedYears_def)
  have "dkkTable ''dkkToUsd'' = Fin 0.1449 \<and> (0::real) < 0.1449"
    by (simp add: dkkTable_def)
  then show "currency ([dkkNegativeFcfData] ! 0) = Some ''DKK'' \<longrightarrow>
      (case exchangeRate ([dkkNegativeFcfData] ! 0) of
         None \<Rightarrow> True
       | Some table \<Rightarrow> \<exists>k. table ''dkkToUsd'' = Fin k \<and> 0 < k)"
    by (simp add: dkkNegativeFcfData_def dkkData_def) (rule exI [of _ "1449 / 10000"], simp)
qed simp_all

text \<open>
  C7. On the DKK record whose exchange-rate table has no \<^verbatim>\<open>dkkToUsd\<close> and whose
  latest free cash flow is -1, the normalization makes the free cash flow \<^verbatim>\<open>NaN\<close>,
  the comparison \<^verbatim>\<open>NaN <= 0\<close> of the guard is false, and \<^verbatim>\<open>calculateFCFE\<close>
  returns a value per share of \<^verbatim>\<open>NaN\<close> with no flag and no reason.
\<close>

theorem calculateFCFE_missing_rate_unflagged:
  "\<exists>yd h' refs res.
     latestYearData (financialHistory dkkNoRateNegativeFcfData) = Some yd
     \<and> yd ''freeCashFlow'' = Fin (- 1)
     \<and> new_ValuationCalculator [dkkNoRateNegativeFcfData] 0 = Inr (h', refs)
     \<and> calculateFCFE toFixed0 (deref h' refs) = Inr res
     \<and> \<not> notApplicable res \<and> reason res = None
     \<and> totalValue res = NaN \<and> valuePerShare res = NaN \<and> upside res = NaN"
proof -
  have cagr: "calculateCAGR [NaN] = Fin 0" by (simp add: calculateCAGR_def)
  have m: "Math_min [Fin 0, Fin (2 / 25), Fin (3 / 20)] = Fin 0"
    by (simp add: Math_min_def num_min_def less_jsval_def)
  show ?thesis
    by (simp add: new_ValuationCalculator_def convertToUSD_def alloc_def deref_def
        dkkNoRateNegativeFcfData_def dkkNoRateData_def mockData_def json_copy_def
        convertDKK_def Let_def latestYearData_def sortedYears_def
        convertYear_monetary [OF freeCashFlow_monetary] mockYear_def
        calculateFCFE_def cagr m calculateCostOfEquity_def)
qed

end
